theory Spec2Isabelle
  imports Main "HOL-Library.Sublist" "HOL-Library.List_Lexorder" "HOL-Library.Char_ord"
begin

section \<open>The Mask R-CNN trained-model loader of the Zegami SDK\<close>

text \<open>
  This theory embeds \<^verbatim>\<open>zegami_sdk/trained_model/mrcnn_trained_model.py\<close>: the class
  \<^verbatim>\<open>MrcnnTrainedModel\<close> with its methods \<^verbatim>\<open>__init__\<close>, \<^verbatim>\<open>load_config\<close> and
  \<^verbatim>\<open>load_model\<close>. The methods are glue around code that is not part of the file: the
  operating system (\<^verbatim>\<open>os.path.exists\<close>), the \<^verbatim>\<open>glob\<close> module, the import machinery,
  the configuration module found on disk, the base class \<^verbatim>\<open>TrainedModel\<close> and the model
  library (\<^verbatim>\<open>MaskRCNN\<close>). All of that is gathered in a record \<open>world\<close> of oracles; what
  the methods themselves do (the order of the calls, the checks, the assignments, the
  exceptions they raise and the ones they let through) is modelled statement by
  statement over an explicit interpreter state. What the weights search finds depends
  on \<^verbatim>\<open>glob\<close> alone; for that, \<^verbatim>\<open>glob\<close> is modelled a second time, as a function on a
  file system tree.
\<close>

subsection \<open>Python values\<close>

text \<open>
  The values the loader looks at: keyword arguments (of which it observes the truth
  value) and configuration attributes (which it prints and hands on). A float is kept
  as a decimal literal \<open>PyFloat m e\<close> standing for \<open>m * 10^e\<close>; no arithmetic is done on it.
\<close>

datatype pyval =
    PyNone
  | PyBool bool
  | PyInt int
  | PyFloat int int
  | PyStr string
  | PyList "pyval list"

text \<open>Python's truth value testing, as \<^verbatim>\<open>if use_mrcnn_exclusion:\<close> applies it.\<close>

fun truthy :: "pyval \<Rightarrow> bool" where
  "truthy PyNone = False"
| "truthy (PyBool b) = b"
| "truthy (PyInt i) = (i \<noteq> 0)"
| "truthy (PyFloat m e) = (m \<noteq> 0)"
| "truthy (PyStr s) = (s \<noteq> [])"
| "truthy (PyList vs) = (vs \<noteq> [])"

text \<open>
  An attribute of an object is a data value or something callable (a method); an object
  is the list of its attributes in the order \<^verbatim>\<open>dir()\<close> gives them.
\<close>

datatype attr = Data pyval | Callable

type_synonym pyobject = "(string \<times> attr) list"

definition getattr :: "pyobject \<Rightarrow> string \<Rightarrow> attr option" where
  "getattr obj name = map_of obj name"

text \<open>
  An instance attribute is either not there (\<open>Unset\<close>: reading it raises
  \<^verbatim>\<open>AttributeError\<close>) or holds a value, which may be Python's \<^verbatim>\<open>None\<close> (\<open>Value None\<close>).
\<close>

datatype 'a slot = Unset | Value "'a option"

subsection \<open>Exceptions\<close>

text \<open>
  \<open>FileNotFoundError\<close> is the exception the loader raises itself, with its message.
  \<open>AttributeError\<close> is raised by an attribute lookup of the loader's own statements
  (the type of the receiver and the name looked up). \<open>External\<close> is an exception raised
  inside a call to foreign code, whatever its Python class: the loader has no
  \<^verbatim>\<open>try\<close> statement, so such an exception leaves the method as it is.
\<close>

datatype exn =
    FileNotFoundError string
  | AttributeError string string
  | External string

definition quoted :: "string \<Rightarrow> string" where
  "quoted s = [CHR 0x22] @ s @ [CHR 0x22]"

subsection \<open>The model library's handle and the configuration module\<close>

text \<open>
  The model handle is foreign; it is represented by what the loader did to it: the
  constructor's arguments, the weights loaded (file, \<^verbatim>\<open>by_name\<close>, \<^verbatim>\<open>exclusion\<close>) and
  the arguments of \<^verbatim>\<open>compile\<close>.
\<close>

record mrcnn =
  mode :: string
  model_config :: "pyobject option"
  model_dir :: string
  weights :: "(string \<times> bool \<times> string list) option"
  compiled :: "(attr \<times> attr) option"

text \<open>The handle as the constructor returns it.\<close>

definition new_model :: "string \<Rightarrow> pyobject option \<Rightarrow> string \<Rightarrow> mrcnn" where
  "new_model m cfg d =
     \<lparr>mode = m, model_config = cfg, model_dir = d, weights = None, compiled = None\<rparr>"

text \<open>
  A module object as \<^verbatim>\<open>exec_module\<close> leaves it. Of its namespace the loader uses the
  attribute \<^verbatim>\<open>InferenceConfig\<close> only: it may be missing (\<open>None\<close>); calling it with no
  argument raises (\<open>Inl\<close>) or returns the configuration object (\<open>Inr\<close>).
\<close>

record pymodule =
  mod_name :: string
  mod_file :: string
  InferenceConfig :: "(string + pyobject) option"

subsection \<open>The instance, the interpreter state and the trace\<close>

record trained_model =
  save_path :: string
  kwargs :: "string \<rightharpoonup> pyval"
  config :: "pyobject slot"
  model :: "mrcnn slot"

datatype pyarg = AStr string | AStrs "string list" | AAttr attr

text \<open>
  What a run does to the outside, in order: lines printed (the format string and its
  arguments) and calls into foreign code.
\<close>

datatype event =
    Print string "pyarg list"
  | Call_exec_module string string
  | Instantiate string "pyval list"
  | Import_from string string
  | Call_glob string bool
  | Call_MaskRCNN string "pyobject option" string
  | Call_load_weights string bool "string list"
  | Call_compile attr attr

record interp =
  self :: trained_model
  sys_modules :: "string \<rightharpoonup> pymodule"
  trace :: "event list"

definition emit :: "event \<Rightarrow> interp \<Rightarrow> interp" where
  "emit e s = s\<lparr>trace := trace s @ [e]\<rparr>"

text \<open>The events of a run from the state \<open>s\<close> to the state \<open>s'\<close>.\<close>

definition since :: "interp \<Rightarrow> interp \<Rightarrow> event list" where
  "since s s' = drop (length (trace s)) (trace s')"

subsection \<open>Foreign code\<close>

text \<open>
  \<^item> \<open>os_path_exists\<close>: \<^verbatim>\<open>os.path.exists\<close>.
  \<^item> \<open>glob_glob p\<close>: the list \<^verbatim>\<open>glob(p, recursive=True)\<close> returns, in its order.
  \<^item> \<open>exec_module fp\<close>: running \<^verbatim>\<open>spec.loader.exec_module\<close> on the module made from the
    file \<open>fp\<close>: the exception it raises, if any, and the module object as it is then.
  \<^item> \<open>import_MaskRCNN\<close>: the statement
    \<^verbatim>\<open>from zegami_ai.mrcnn.architecture.model import MaskRCNN\<close>; \<open>Some e\<close> when it raises.
  \<^item> \<open>MaskRCNN\<close>, \<open>load_weights\<close>, \<open>compile\<close>: the three calls into the model library,
    each \<open>Some e\<close> when it raises.
  \<^item> \<open>TrainedModel_init\<close>: the base class's \<^verbatim>\<open>__init__\<close>, which is not in the file: it
    raises or leaves the instance with \<^verbatim>\<open>save_path\<close> and \<^verbatim>\<open>kwargs\<close> set (the methods
    read both).
\<close>

record world =
  os_path_exists :: "string \<Rightarrow> bool"
  glob_glob :: "string \<Rightarrow> string list"
  exec_module :: "string \<Rightarrow> string option \<times> pymodule"
  import_MaskRCNN :: "string option"
  MaskRCNN :: "string \<Rightarrow> pyobject option \<Rightarrow> string \<Rightarrow> string option"
  load_weights :: "mrcnn \<Rightarrow> string \<Rightarrow> bool \<Rightarrow> string list \<Rightarrow> string option"
  compile :: "mrcnn \<Rightarrow> attr \<Rightarrow> attr \<Rightarrow> string option"
  TrainedModel_init :: "string \<Rightarrow> (string \<rightharpoonup> pyval) \<Rightarrow> string + trained_model"

subsection \<open>Path helpers of \<^verbatim>\<open>os.path\<close> (POSIX)\<close>

text \<open>\<^verbatim>\<open>os.path.join(a, b)\<close> for two components.\<close>

definition os_path_join :: "string \<Rightarrow> string \<Rightarrow> string" where
  "os_path_join a b =
     (if b \<noteq> [] \<and> hd b = CHR ''/'' then b
      else if a = [] \<or> last a = CHR ''/'' then a @ b
      else a @ ''/'' @ b)"

text \<open>\<^verbatim>\<open>os.path.basename(p)\<close>: what follows the last slash.\<close>

definition os_path_basename :: "string \<Rightarrow> string" where
  "os_path_basename p = rev (takeWhile (\<lambda>c. c \<noteq> CHR ''/'') (rev p))"

subsection \<open>\<^verbatim>\<open>load_config\<close>\<close>

text \<open>
  The readout loop: one line per attribute of the configuration whose name does not
  start with two underscores and whose value is not callable.
\<close>

definition readout :: "pyobject \<Rightarrow> event list" where
  "readout cfg =
     map (\<lambda>(k, v). Print ''{:<20} {}'' [AStr k, AAttr v])
       (filter (\<lambda>(k, v). \<not> prefix ''__'' k \<and> v \<noteq> Callable) cfg)"

text \<open>Line 46: where the configuration file is looked for.\<close>

definition config_fp :: "string \<Rightarrow> string" where
  "config_fp sp = os_path_join sp ''inference_config.py''"

text \<open>
  The method has no \<^verbatim>\<open>return\<close> statement: when it completes, its value is \<^verbatim>\<open>None\<close>,
  the \<open>None\<close> of the result type \<open>pyobject option\<close>. The module is entered into
  \<^verbatim>\<open>sys.modules\<close> before it is executed, so the entry stays when the execution raises.
\<close>

definition load_config :: "world \<Rightarrow> interp \<Rightarrow> (exn + pyobject option) \<times> interp" where
  "load_config w s0 =
     (let s1 = emit (Print (CHR 0x0A # ''[Loading Config]'') []) s0;
          fp = config_fp (save_path (self s1))
      in if \<not> os_path_exists w fp then
           (Inl (FileNotFoundError (''Expected to find configuration file at '' @ quoted fp)), s1)
         else
           (let inference_config = snd (exec_module w fp);
                s2 = s1\<lparr>sys_modules := (sys_modules s1)(''inference_config'' \<mapsto> inference_config)\<rparr>;
                s3 = emit (Call_exec_module ''inference_config'' fp) s2
            in (case fst (exec_module w fp) of
                  Some e \<Rightarrow> (Inl (External e), s3)
                | None \<Rightarrow>
                   (case InferenceConfig inference_config of
                      None \<Rightarrow> (Inl (AttributeError ''module'' ''InferenceConfig''), s3)
                    | Some r \<Rightarrow>
                       (let s4 = emit (Instantiate ''InferenceConfig'' []) s3
                        in (case r of
                              Inl e \<Rightarrow> (Inl (External e), s4)
                            | Inr cfg \<Rightarrow>
                               (let s5 = s4\<lparr>self := (self s4)\<lparr>config := Value (Some cfg)\<rparr>\<rparr>;
                                    s6 = emit (Print ''Inference Config:'' []) s5;
                                    s7 = s6\<lparr>trace := trace s6 @ readout cfg\<rparr>
                                in (Inr None, s7))))))))"

subsection \<open>\<^verbatim>\<open>load_model\<close>\<close>

text \<open>Line 76: the pattern is the save path followed directly by \<^verbatim>\<open>**/*.h5\<close>.\<close>

definition weights_pattern :: "string \<Rightarrow> string" where
  "weights_pattern sp = sp @ ''**/*.h5''"

text \<open>
  Lines 78 to 87: no candidate raises; of several the last one of the list is taken
  (\<^verbatim>\<open>candidates[-1]\<close>); a single one is taken as it is. The lines printed come with it.
\<close>

definition select_weights :: "string \<Rightarrow> string list \<Rightarrow> exn + (string \<times> event list)" where
  "select_weights sp candidates =
     (if length candidates = 0 then
        Inl (FileNotFoundError (''No weights files found in '' @ quoted sp))
      else if length candidates > 1 then
        Inr (last candidates,
             [Print (''Multiple weights found: '' @ quoted ''{}'') [AStrs candidates],
              Print (''Using weights: '' @ quoted ''{}'') [AStr (last candidates)]])
      else
        Inr (candidates ! 0,
             [Print (''Using weights: '' @ quoted ''{}'') [AStr (os_path_basename (candidates ! 0))]]))"

text \<open>Lines 90 to 96: the layers left out when the weights are loaded.\<close>

definition mrcnn_exclusion :: "(string \<rightharpoonup> pyval) \<Rightarrow> string list \<times> event list" where
  "mrcnn_exclusion kw =
     (let use_mrcnn_exclusion =
            (case kw ''use_mrcnn_exclusion'' of None \<Rightarrow> PyBool False | Some v \<Rightarrow> v)
      in if truthy use_mrcnn_exclusion then
           ([''mrcnn_class_logits'', ''mrcnn_bbox_fc'', ''mrcnn_bbox'', ''mrcnn_mask'', ''rpn_model''],
            [Print ''Using mrcnn exclusion (untouched external weights)'' []])
         else ([], []))"

text \<open>
  Reading an attribute of \<^verbatim>\<open>self.config\<close>: of an instance without the attribute
  \<^verbatim>\<open>config\<close>, of \<^verbatim>\<open>None\<close> and of an object that lacks the name, it raises.
\<close>

definition config_attr :: "pyobject slot \<Rightarrow> string \<Rightarrow> exn + attr" where
  "config_attr c name =
     (case c of
        Unset \<Rightarrow> Inl (AttributeError ''MrcnnTrainedModel'' ''config'')
      | Value None \<Rightarrow> Inl (AttributeError ''NoneType'' name)
      | Value (Some obj) \<Rightarrow>
         (case getattr obj name of
            None \<Rightarrow> Inl (AttributeError ''object'' name)
          | Some v \<Rightarrow> Inr v))"

text \<open>
  Lines 105 to 110, on the model \<open>m\<close> with its weights loaded. Reading the two
  attributes comes before the call of \<^verbatim>\<open>compile\<close>. Like \<^verbatim>\<open>load_config\<close> the method
  ends without a \<^verbatim>\<open>return\<close>: its value is \<^verbatim>\<open>None\<close>.
\<close>

definition compile_model :: "world \<Rightarrow> mrcnn \<Rightarrow> interp \<Rightarrow> (exn + mrcnn option) \<times> interp" where
  "compile_model w m s0 =
     (let s1 = emit (Print ''Compiling model'' []) s0
      in (case config_attr (config (self s1)) ''LEARNING_RATE'' of
            Inl e \<Rightarrow> (Inl e, s1)
          | Inr lr \<Rightarrow>
             (case config_attr (config (self s1)) ''LEARNING_MOMENTUM'' of
                Inl e \<Rightarrow> (Inl e, s1)
              | Inr lm \<Rightarrow>
                 (let s2 = emit (Call_compile lr lm) s1
                  in (case compile w m lr lm of
                        Some e \<Rightarrow> (Inl (External e), s2)
                      | None \<Rightarrow>
                         (Inr None,
                          s2\<lparr>self := (self s2)\<lparr>model := Value (Some (m\<lparr>compiled := Some (lr, lm)\<rparr>))\<rparr>\<rparr>))))))"

text \<open>
  Lines 98 to 103, once the weights file and the exclusion list are known: the
  constructor gets whatever \<^verbatim>\<open>self.config\<close> holds, \<^verbatim>\<open>None\<close> included. The source's
  variable \<^verbatim>\<open>wfp\<close> is written \<open>wfp'\<close>, since \<open>wfp\<close> is a constant of HOL.
\<close>

definition build_model ::
  "world \<Rightarrow> string \<Rightarrow> string list \<Rightarrow> interp \<Rightarrow> (exn + mrcnn option) \<times> interp" where
  "build_model w wfp' excl s0 =
     (let s1 = emit (Print ''Instantiating model'' []) s0
      in (case config (self s1) of
            Unset \<Rightarrow> (Inl (AttributeError ''MrcnnTrainedModel'' ''config''), s1)
          | Value cfg \<Rightarrow>
             (let s2 = emit (Call_MaskRCNN ''inference'' cfg ''.'') s1
              in (case MaskRCNN w ''inference'' cfg ''.'' of
                    Some e \<Rightarrow> (Inl (External e), s2)
                  | None \<Rightarrow>
                     (let m0 = new_model ''inference'' cfg ''.'';
                          s3 = emit (Print ''Loading weights'' []) s2;
                          s4 = emit (Call_load_weights wfp' True excl) s3
                      in (case load_weights w m0 wfp' True excl of
                            Some e \<Rightarrow> (Inl (External e), s4)
                          | None \<Rightarrow>
                             compile_model w (m0\<lparr>weights := Some (wfp', True, excl)\<rparr>) s4))))))"

definition load_model :: "world \<Rightarrow> interp \<Rightarrow> (exn + mrcnn option) \<times> interp" where
  "load_model w s0 =
     (let s1 = emit (Import_from ''zegami_ai.mrcnn.architecture.model'' ''MaskRCNN'') s0
      in (case import_MaskRCNN w of
            Some e \<Rightarrow> (Inl (External e), s1)
          | None \<Rightarrow>
             (let s2 = emit (Print (CHR 0x0A # ''[Loading Model]'') []) s1;
                  regex = weights_pattern (save_path (self s2));
                  s3 = emit (Call_glob regex True) s2;
                  candidates = glob_glob w regex
              in (case select_weights (save_path (self s3)) candidates of
                    Inl e \<Rightarrow> (Inl e, s3)
                  | Inr (wfp', out) \<Rightarrow>
                     (let s4 = s3\<lparr>trace := trace s3 @ out\<rparr>;
                          excl = fst (mrcnn_exclusion (kwargs (self s4)));
                          s5 = s4\<lparr>trace := trace s4 @ snd (mrcnn_exclusion (kwargs (self s4)))\<rparr>
                      in build_model w wfp' excl s5)))))"

subsection \<open>\<^verbatim>\<open>__init__\<close>\<close>

text \<open>
  The base class's initialiser, then the two assignments
  \<^verbatim>\<open>self.config = self.load_config()\<close> and \<^verbatim>\<open>self.model = self.load_model()\<close>: each
  stores what the method returned.
\<close>

definition init ::
  "world \<Rightarrow> string \<Rightarrow> (string \<rightharpoonup> pyval) \<Rightarrow> interp \<Rightarrow> (exn + unit) \<times> interp" where
  "init w sp kw s0 =
     (case TrainedModel_init w sp kw of
        Inl e \<Rightarrow> (Inl (External e), s0)
      | Inr obj \<Rightarrow>
         (case load_config w (s0\<lparr>self := obj\<rparr>) of
            (Inl e, s1) \<Rightarrow> (Inl e, s1)
          | (Inr r, s1) \<Rightarrow>
             (case load_model w (s1\<lparr>self := (self s1)\<lparr>config := Value r\<rparr>\<rparr>) of
                (Inl e, s2) \<Rightarrow> (Inl e, s2)
              | (Inr r', s2) \<Rightarrow> (Inr (), s2\<lparr>self := (self s2)\<lparr>model := Value r'\<rparr>\<rparr>))))"

subsection \<open>Reading a trace\<close>

text \<open>The calls into the model library: the constructor and the two methods.\<close>

fun is_model_call :: "event \<Rightarrow> bool" where
  "is_model_call (Call_MaskRCNN m c d) = True"
| "is_model_call (Call_load_weights f b x) = True"
| "is_model_call (Call_compile lr lm) = True"
| "is_model_call _ = False"

text \<open>The arguments of a \<^verbatim>\<open>load_weights\<close> call: file, \<^verbatim>\<open>by_name\<close>, \<^verbatim>\<open>exclusion\<close>.\<close>

fun load_weights_args :: "event \<Rightarrow> (string \<times> bool \<times> string list) list" where
  "load_weights_args (Call_load_weights f b x) = [(f, b, x)]"
| "load_weights_args _ = []"

text \<open>The modules executed and the classes instantiated.\<close>

fun is_exec_module :: "event \<Rightarrow> bool" where
  "is_exec_module (Call_exec_module n f) = True"
| "is_exec_module _ = False"

fun is_instantiation :: "event \<Rightarrow> bool" where
  "is_instantiation (Instantiate c args) = True"
| "is_instantiation _ = False"

section \<open>The \<^verbatim>\<open>glob\<close> module on a file system tree\<close>

text \<open>
  \<^verbatim>\<open>load_model\<close> leaves the search for weights files to \<^verbatim>\<open>glob(regex, recursive=True)\<close>
  of Python's standard library. What the search finds is decided by that function on
  the pattern of line 76, so the function is modelled here as the library defines it
  (\<^verbatim>\<open>glob.py\<close>: \<^verbatim>\<open>_iglob\<close>, \<^verbatim>\<open>_glob0\<close>, \<^verbatim>\<open>_glob1\<close>, \<^verbatim>\<open>_glob2\<close>, \<^verbatim>\<open>_rlistdir\<close>, \<^verbatim>\<open>_iterdir\<close>,
  \<^verbatim>\<open>has_magic\<close>, \<^verbatim>\<open>_ishidden\<close>, \<^verbatim>\<open>_isrecursive\<close>; \<^verbatim>\<open>posixpath.split\<close> and \<^verbatim>\<open>join\<close>;
  \<^verbatim>\<open>fnmatch\<close>), over a POSIX file system that is a tree: no symbolic links, and the
  entries of a directory in the order \<^verbatim>\<open>os.scandir\<close> lists them.
\<close>

subsection \<open>The file system\<close>

datatype node = File | Dir "(string \<times> node) list"

fun is_dir :: "node \<Rightarrow> bool" where
  "is_dir (Dir es) = True"
| "is_dir File = False"

record filesystem =
  root :: node
  cwd :: "string list"

text \<open>\<^verbatim>\<open>p.split('/')\<close>: the components of a path, empty ones included.\<close>

fun split_path :: "string \<Rightarrow> string list" where
  "split_path [] = [[]]"
| "split_path (c # cs) =
     (if c = CHR ''/'' then [] # split_path cs
      else (c # hd (split_path cs)) # tl (split_path cs))"

text \<open>
  Path resolution, component by component, on the stack of directories entered (the
  node reached first). An empty component and \<^verbatim>\<open>.\<close> stay, \<^verbatim>\<open>..\<close> goes up (the root is its
  own parent), and any component after a regular file fails.
\<close>

fun walk :: "node list \<Rightarrow> string list \<Rightarrow> node list option" where
  "walk st [] = Some st"
| "walk [] (c # cs) = None"
| "walk (File # anc) (c # cs) = None"
| "walk (Dir es # anc) (c # cs) =
     (if c = [] \<or> c = ''.'' then walk (Dir es # anc) cs
      else if c = ''..'' then walk (if anc = [] then [Dir es] else anc) cs
      else (case map_of es c of
              None \<Rightarrow> None
            | Some n \<Rightarrow> walk (n # Dir es # anc) cs))"

text \<open>The empty path names nothing; a relative path starts at the working directory.\<close>

definition resolve :: "filesystem \<Rightarrow> string \<Rightarrow> node list option" where
  "resolve fs p =
     (if p = [] then None
      else if hd p = CHR ''/'' then walk [root fs] (split_path p)
      else (case walk [root fs] (cwd fs) of
              None \<Rightarrow> None
            | Some st \<Rightarrow> walk st (split_path p)))"

text \<open>\<^verbatim>\<open>os.path.lexists\<close> (and, without links, \<^verbatim>\<open>os.path.exists\<close>), \<^verbatim>\<open>os.path.isdir\<close>, \<^verbatim>\<open>os.scandir\<close>.\<close>

definition lexists :: "filesystem \<Rightarrow> string \<Rightarrow> bool" where
  "lexists fs p = (resolve fs p \<noteq> None)"

definition isdir :: "filesystem \<Rightarrow> string \<Rightarrow> bool" where
  "isdir fs p = (case resolve fs p of Some (n # anc) \<Rightarrow> is_dir n | _ \<Rightarrow> False)"

definition scandir :: "filesystem \<Rightarrow> string \<Rightarrow> (string \<times> node) list option" where
  "scandir fs p = (case resolve fs p of Some (Dir es # anc) \<Rightarrow> Some es | _ \<Rightarrow> None)"

subsection \<open>\<^verbatim>\<open>posixpath.split\<close>\<close>

definition rstrip_slash :: "string \<Rightarrow> string" where
  "rstrip_slash s = rev (dropWhile (\<lambda>c. c = CHR ''/'') (rev s))"

text \<open>
  Head and tail around the last slash; trailing slashes are stripped from the head
  unless it consists of slashes only.
\<close>

definition os_path_split :: "string \<Rightarrow> string \<times> string" where
  "os_path_split p =
     (let head = rev (dropWhile (\<lambda>c. c \<noteq> CHR ''/'') (rev p));
          tail = rev (takeWhile (\<lambda>c. c \<noteq> CHR ''/'') (rev p))
      in (if head \<noteq> [] \<and> \<not> (\<forall>c \<in> set head. c = CHR ''/'') then rstrip_slash head else head,
          tail))"

subsection \<open>\<^verbatim>\<open>fnmatch\<close> and the predicates of \<^verbatim>\<open>glob\<close>\<close>

definition has_magic :: "string \<Rightarrow> bool" where
  "has_magic s = (\<exists>c \<in> set s. c = CHR ''*'' \<or> c = CHR ''?'' \<or> c = CHR ''['')"

definition ishidden :: "string \<Rightarrow> bool" where
  "ishidden name = (name \<noteq> [] \<and> hd name = CHR ''.'')"

definition isrecursive :: "string \<Rightarrow> bool" where
  "isrecursive pattern = (pattern = ''**'')"

text \<open>
  \<open>fnmatch name pattern\<close> for a pattern without bracket expressions: \<^verbatim>\<open>*\<close> matches any
  run of characters, \<^verbatim>\<open>?\<close> any one character, anything else itself, and the whole name
  must be matched. Bracket expressions are outside this model: \<open>py_glob\<close> below answers
  \<open>None\<close> for a pattern with a \<^verbatim>\<open>[\<close>.
\<close>

fun fnmatch :: "string \<Rightarrow> string \<Rightarrow> bool" where
  "fnmatch [] [] = True"
| "fnmatch (c # cs) [] = False"
| "fnmatch [] (p # ps) = (p = CHR ''*'' \<and> fnmatch [] ps)"
| "fnmatch (c # cs) (p # ps) =
     (if p = CHR ''*'' then fnmatch (c # cs) ps \<or> fnmatch cs (p # ps)
      else if p = CHR ''?'' then fnmatch cs ps
      else c = p \<and> fnmatch cs ps)"

subsection \<open>The helpers of \<^verbatim>\<open>glob\<close>\<close>

text \<open>\<^verbatim>\<open>_iterdir\<close>: the names in a directory, none when it cannot be listed.\<close>

definition iterdir :: "filesystem \<Rightarrow> string \<Rightarrow> bool \<Rightarrow> string list" where
  "iterdir fs dirname dironly =
     (case scandir fs (if dirname = [] then ''.'' else dirname) of
        None \<Rightarrow> []
      | Some es \<Rightarrow> map fst (filter (\<lambda>(x, n). \<not> dironly \<or> is_dir n) es))"

text \<open>\<^verbatim>\<open>_glob1\<close>: a pattern that does not start with a dot skips the hidden names.\<close>

definition glob1 :: "filesystem \<Rightarrow> string \<Rightarrow> string \<Rightarrow> bool \<Rightarrow> string list" where
  "glob1 fs dirname pattern dironly =
     (let names = iterdir fs dirname dironly;
          names' = (if \<not> ishidden pattern then filter (\<lambda>x. \<not> ishidden x) names else names)
      in filter (\<lambda>x. fnmatch x pattern) names')"

definition glob0 :: "filesystem \<Rightarrow> string \<Rightarrow> string \<Rightarrow> bool \<Rightarrow> string list" where
  "glob0 fs dirname basename dironly =
     (if basename = [] then (if isdir fs dirname then [basename] else [])
      else (if lexists fs (os_path_join dirname basename) then [basename] else []))"

text \<open>
  \<^verbatim>\<open>_rlistdir\<close>: every entry below a directory that is reached through names not
  starting with a dot, as a path relative to it, parents before children. The library
  lists \<^verbatim>\<open>join(dirname, x)\<close> again for each entry \<open>x\<close>; in a tree that is the node of
  \<open>x\<close>, so the recursion is on the node.
\<close>

fun rlistdir :: "node \<Rightarrow> bool \<Rightarrow> string list" where
  "rlistdir File dironly = []"
| "rlistdir (Dir es) dironly =
     concat (map (\<lambda>(x, n).
        if (\<not> dironly \<or> is_dir n) \<and> \<not> ishidden x
        then x # map (os_path_join x) (rlistdir n dironly) else []) es)"

text \<open>\<^verbatim>\<open>_glob2\<close>, for the pattern \<^verbatim>\<open>**\<close>: the directory itself (the empty name) and all below.\<close>

definition glob2 :: "filesystem \<Rightarrow> string \<Rightarrow> string \<Rightarrow> bool \<Rightarrow> string list" where
  "glob2 fs dirname pattern dironly =
     [] # (case resolve fs (if dirname = [] then ''.'' else dirname) of
             Some (n # anc) \<Rightarrow> rlistdir n dironly
           | _ \<Rightarrow> [])"

subsection \<open>\<^verbatim>\<open>_iglob\<close> and \<^verbatim>\<open>glob\<close>, with \<^verbatim>\<open>recursive=True\<close>\<close>

lemma os_path_split_prefix: "prefix (fst (os_path_split p)) p"
proof -
  have 1: "prefix (rev (dropWhile P (rev p))) p" for P
    by (metis prefixI rev_append rev_rev_ident takeWhile_dropWhile_id)
  have 2: "prefix (rstrip_slash s) s" for s
    unfolding rstrip_slash_def
    by (metis prefixI rev_append rev_rev_ident takeWhile_dropWhile_id)
  show ?thesis
    unfolding os_path_split_def Let_def
    using 1 2 by (auto intro: prefix_order.trans)
qed

lemma os_path_split_shorter:
  "fst (os_path_split p) \<noteq> p \<Longrightarrow> length (fst (os_path_split p)) < length p"
  using os_path_split_prefix [of p]
  by (metis prefix_length_le le_neq_implies_less prefix_length_prefix prefix_order.antisym prefix_order.refl)

text \<open>
  The pattern is split at its last slash; the directory part is globbed first when it
  has magic characters of its own (the recursion, on a shorter string), and the last
  component is then matched in each directory found.
\<close>

function iglob :: "filesystem \<Rightarrow> string \<Rightarrow> bool \<Rightarrow> string list" where
  "iglob fs pathname dironly =
     (let dirname = fst (os_path_split pathname);
          basename = snd (os_path_split pathname)
      in if \<not> has_magic pathname then
           (if basename \<noteq> [] then (if lexists fs pathname then [pathname] else [])
            else (if isdir fs dirname then [pathname] else []))
         else if dirname = [] then
           (if isrecursive basename then glob2 fs dirname basename dironly
            else glob1 fs dirname basename dironly)
         else
           concat (map (\<lambda>d. map (os_path_join d)
               (if has_magic basename then
                  (if isrecursive basename then glob2 fs d basename dironly
                   else glob1 fs d basename dironly)
                else glob0 fs d basename dironly))
             (if dirname \<noteq> pathname \<and> has_magic dirname then iglob fs dirname True
              else [dirname])))"
  by pat_completeness auto
termination
  by (relation "measure (\<lambda>(fs, p, d). length p)") (auto simp: os_path_split_shorter)

text \<open>
  \<^verbatim>\<open>glob(pathname, recursive=True)\<close>: for the pattern \<^verbatim>\<open>**\<close> itself the empty first result
  is dropped.
\<close>

definition py_glob :: "filesystem \<Rightarrow> string \<Rightarrow> string list option" where
  "py_glob fs pathname =
     (if CHR ''['' \<in> set pathname then None
      else Some (if isrecursive pathname then tl (iglob fs pathname False)
                 else iglob fs pathname False))"

subsection \<open>The words of the specification\<close>

text \<open>
  The lexicographically last of a list of strings, in the order of Python's string
  comparison (character by character, by code point).
\<close>

definition lexicographically_last :: "string list \<Rightarrow> string" where
  "lexicographically_last cs = fold max cs (hd cs)"

text \<open>
  Every \<^verbatim>\<open>.h5\<close> file in \<^verbatim>\<open>save_path\<close> or any of its subdirectories: the regular
  files below a node whose name ends in \<^verbatim>\<open>.h5\<close>, as paths relative to the node.
\<close>

fun h5_files :: "node \<Rightarrow> string list" where
  "h5_files File = []"
| "h5_files (Dir es) =
     map fst (filter (\<lambda>(x, n). \<not> is_dir n \<and> suffix ''.h5'' x) es) @
     concat (map (\<lambda>(x, n). map (os_path_join x) (h5_files n)) es)"

text \<open>
  What the search does find below a node: the entries, files or directories, whose
  name ends in \<^verbatim>\<open>.h5\<close> and does not start with a dot, first those of the node itself
  and then, directory by directory, those of every directory reached from it through
  names that do not start with a dot.
\<close>

fun h5_entries :: "node \<Rightarrow> string list" where
  "h5_entries File = []"
| "h5_entries (Dir es) =
     filter (\<lambda>x. \<not> ishidden x \<and> suffix ''.h5'' x) (map fst es) @
     concat (map (\<lambda>(x, n).
        if \<not> ishidden x \<and> is_dir n then map (os_path_join x) (h5_entries n) else []) es)"

text \<open>
  The same, said without recursion on the tree: going down from a node through the
  directories named \<open>ds\<close>, and the relative path of the entry \<open>x\<close> found there.
\<close>

fun descend :: "node \<Rightarrow> string list \<Rightarrow> node option" where
  "descend n [] = Some n"
| "descend File (d # ds) = None"
| "descend (Dir es) (d # ds) =
     (case map_of es d of None \<Rightarrow> None | Some c \<Rightarrow> descend c ds)"

definition rel_path :: "string list \<Rightarrow> string \<Rightarrow> string" where
  "rel_path ds x = concat (map (\<lambda>d. d @ ''/'') ds) @ x"

text \<open>
  A tree in which the two agree: no name starts with a dot and no directory has a name
  that ends in \<^verbatim>\<open>.h5\<close>.
\<close>

fun plain :: "node \<Rightarrow> bool" where
  "plain File = True"
| "plain (Dir es) =
     list_all (\<lambda>(x, n). \<not> ishidden x \<and> \<not> (is_dir n \<and> suffix ''.h5'' x) \<and> plain n) es"

text \<open>
  A well-formed directory tree: the names in a directory are distinct, not empty, not
  \<^verbatim>\<open>.\<close> or \<^verbatim>\<open>..\<close>, and without a slash.
\<close>

definition valid_name :: "string \<Rightarrow> bool" where
  "valid_name x = (x \<noteq> [] \<and> x \<noteq> ''.'' \<and> x \<noteq> ''..'' \<and> CHR ''/'' \<notin> set x)"

fun wf_node :: "node \<Rightarrow> bool" where
  "wf_node File = True"
| "wf_node (Dir es) =
     (distinct (map fst es) \<and> list_all (\<lambda>(x, n). valid_name x \<and> wf_node n) es)"

section \<open>Concrete worlds\<close>

text \<open>
  A configuration object with the two attributes \<^verbatim>\<open>load_model\<close> reads, a further data
  attribute and two callables.
\<close>

definition cfg0 :: pyobject where
  "cfg0 =
     [(''LEARNING_MOMENTUM'', Data (PyFloat 9 (- 1))),
      (''LEARNING_RATE'', Data (PyFloat 1 (- 3))),
      (''NAME'', Data (PyStr ''zegami'')),
      (''__init__'', Callable),
      (''display'', Callable)]"

definition module0 :: "string \<Rightarrow> pymodule" where
  "module0 fp = \<lparr>mod_name = ''inference_config'', mod_file = fp, InferenceConfig = Some (Inr cfg0)\<rparr>"

text \<open>
  A world in which no foreign call raises: the save directory \<^verbatim>\<open>/m/\<close> holds the
  configuration file and two weights files, which the glob lists in that order.
\<close>

definition world_ok :: world where
  "world_ok =
     \<lparr>os_path_exists = (\<lambda>p. p = ''/m/inference_config.py''),
      glob_glob = (\<lambda>p. if p = ''/m/**/*.h5'' then [''/m/z.h5'', ''/m/sub/a.h5''] else []),
      exec_module = (\<lambda>fp. (None, module0 fp)),
      import_MaskRCNN = None,
      MaskRCNN = (\<lambda>m c d. None),
      load_weights = (\<lambda>m f b x. None),
      compile = (\<lambda>m lr lm. None),
      TrainedModel_init =
        (\<lambda>sp kw. Inr \<lparr>save_path = sp, kwargs = kw, config = Unset, model = Unset\<rparr>)\<rparr>"

text \<open>An instance as the base class leaves it, in a fresh interpreter.\<close>

definition obj0 :: "string \<Rightarrow> (string \<rightharpoonup> pyval) \<Rightarrow> trained_model" where
  "obj0 sp kw = \<lparr>save_path = sp, kwargs = kw, config = Unset, model = Unset\<rparr>"

definition st0 :: "trained_model \<Rightarrow> interp" where
  "st0 obj = \<lparr>self = obj, sys_modules = Map.empty, trace = []\<rparr>"

text \<open>
  The state in which \<^verbatim>\<open>load_model\<close> can succeed: an instance for \<^verbatim>\<open>/m/\<close> whose
  attribute \<^verbatim>\<open>config\<close> holds a configuration object.
\<close>

definition st_cfg :: "(string \<rightharpoonup> pyval) \<Rightarrow> interp" where
  "st_cfg kw = st0 ((obj0 ''/m/'' kw)\<lparr>config := Value (Some cfg0)\<rparr>)"

text \<open>Worlds in which one foreign call raises, all else as in \<open>world_ok\<close>.\<close>

definition world_exec_raises :: world where
  "world_exec_raises =
     world_ok\<lparr>exec_module :=
       (\<lambda>fp. (Some ''SyntaxError'', (module0 fp)\<lparr>InferenceConfig := None\<rparr>))\<rparr>"

definition world_instantiate_raises :: world where
  "world_instantiate_raises =
     world_ok\<lparr>exec_module :=
       (\<lambda>fp. (None, (module0 fp)\<lparr>InferenceConfig := Some (Inl ''TypeError'')\<rparr>))\<rparr>"

definition world_MaskRCNN_raises :: world where
  "world_MaskRCNN_raises = world_ok\<lparr>MaskRCNN := (\<lambda>m c d. Some ''ValueError'')\<rparr>"

definition world_load_weights_raises :: world where
  "world_load_weights_raises = world_ok\<lparr>load_weights := (\<lambda>m f b x. Some ''OSError'')\<rparr>"

definition world_compile_raises :: world where
  "world_compile_raises = world_ok\<lparr>compile := (\<lambda>m lr lm. Some ''RuntimeError'')\<rparr>"

definition world_import_raises :: world where
  "world_import_raises = world_ok\<lparr>import_MaskRCNN := Some ''ModuleNotFoundError''\<rparr>"

definition world_base_raises :: world where
  "world_base_raises = world_ok\<lparr>TrainedModel_init := (\<lambda>sp kw. Inl ''AssertionError'')\<rparr>"

text \<open>A world in which the search yields one candidate.\<close>

definition world_one :: world where
  "world_one = world_ok\<lparr>glob_glob := (\<lambda>p. [''/m/only.h5''])\<rparr>"

text \<open>A world in which the search yields two candidates in ascending order.\<close>

definition world_sorted :: world where
  "world_sorted = world_ok\<lparr>glob_glob := (\<lambda>p. [''/m/a.h5'', ''/m/b.h5''])\<rparr>"

text \<open>
  A file system on which \<^verbatim>\<open>glob\<close> returns that list: both weights files are in the save
  directory itself, listed in ascending order.
\<close>

definition fs_sorted :: filesystem where
  "fs_sorted =
     \<lparr>root = Dir
        [(''m'', Dir [(''a.h5'', File),
                      (''b.h5'', File),
                      (''inference_config.py'', File)])],
      cwd = []\<rparr>"

text \<open>
  A file system with the save directory \<^verbatim>\<open>/m\<close> of \<open>world_ok\<close>: the configuration file, a
  weights file at the top and one in a subdirectory, one more in a hidden directory,
  and a sibling directory \<^verbatim>\<open>/m2\<close> with a weights file of its own.
\<close>

definition fs_m :: filesystem where
  "fs_m =
     \<lparr>root = Dir
        [(''m'', Dir [(''z.h5'', File),
                      (''inference_config.py'', File),
                      (''sub'', Dir [(''a.h5'', File), (''notes.txt'', File)]),
                      (''.cache'', Dir [(''c.h5'', File)])]),
         (''m2'', Dir [(''x.h5'', File)])],
      cwd = []\<rparr>"

text \<open>The node of \<^verbatim>\<open>/m\<close> in it.\<close>

definition node_m :: node where
  "node_m = Dir [(''z.h5'', File),
                 (''inference_config.py'', File),
                 (''sub'', Dir [(''a.h5'', File), (''notes.txt'', File)]),
                 (''.cache'', Dir [(''c.h5'', File)])]"

text \<open>The node of \<^verbatim>\<open>/m/sub\<close>.\<close>

definition node_sub :: node where
  "node_sub = Dir [(''a.h5'', File), (''notes.txt'', File)]"

section \<open>Properties of \<^verbatim>\<open>load_config\<close>\<close>

lemma since_append: "trace s' = trace s @ es \<Longrightarrow> since s s' = es"
  by (simp add: since_def)

lemma load_config_not_exists:
  "\<not> os_path_exists w (config_fp (save_path (self s))) \<Longrightarrow>
     load_config w s =
       (Inl (FileNotFoundError
               (''Expected to find configuration file at '' @ quoted (config_fp (save_path (self s))))),
        emit (Print (CHR 0x0A # ''[Loading Config]'') []) s)"
  by (simp add: load_config_def Let_def emit_def)

lemma load_config_exists_trace:
  assumes "os_path_exists w (config_fp (save_path (self s)))"
  shows "\<exists>es. trace (snd (load_config w s)) =
           trace s @ [Print (CHR 0x0A # ''[Loading Config]'') [],
                      Call_exec_module ''inference_config'' (config_fp (save_path (self s)))] @ es
         \<and> (\<forall>e \<in> set es. \<forall>n f. e \<noteq> Call_exec_module n f)
         \<and> (\<forall>msg. fst (load_config w s) \<noteq> Inl (FileNotFoundError msg))"
  using assms
  by (auto simp: load_config_def Let_def emit_def readout_def split: option.splits sum.splits)

text \<open>
  Claim C3. \<^verbatim>\<open>load_config\<close> raises its file-not-found error exactly when
  \<^verbatim>\<open>os.path.exists\<close> denies the file \<^verbatim>\<open>inference_config.py\<close> joined to the save path;
  when the file exists the check does not fail and the method goes on to execute that
  file as a module.
\<close>

theorem load_config_FileNotFoundError_iff:
  "((\<exists>msg. fst (load_config w s) = Inl (FileNotFoundError msg))
      \<longleftrightarrow> \<not> os_path_exists w (config_fp (save_path (self s)))) \<and>
   (os_path_exists w (config_fp (save_path (self s))) \<longrightarrow>
      Call_exec_module ''inference_config'' (config_fp (save_path (self s)))
        \<in> set (since s (snd (load_config w s))))"
proof (cases "os_path_exists w (config_fp (save_path (self s)))")
  case True
  from load_config_exists_trace [OF True] obtain es where
    tr: "trace (snd (load_config w s)) =
           trace s @ [Print (CHR 0x0A # ''[Loading Config]'') [],
                      Call_exec_module ''inference_config'' (config_fp (save_path (self s)))] @ es"
    and nf: "\<forall>msg. fst (load_config w s) \<noteq> Inl (FileNotFoundError msg)"
    by blast
  from tr have "since s (snd (load_config w s)) =
      [Print (CHR 0x0A # ''[Loading Config]'') [],
       Call_exec_module ''inference_config'' (config_fp (save_path (self s)))] @ es"
    by (rule since_append)
  with True nf show ?thesis by simp
next
  case False
  then show ?thesis by (simp add: load_config_not_exists)
qed

theorem load_config_FileNotFoundError_iff_witness:
  "os_path_exists world_ok (config_fp ''/m/'') \<and>
   Call_exec_module ''inference_config'' ''/m/inference_config.py''
     \<in> set (since (st0 (obj0 ''/m/'' Map.empty))
               (snd (load_config world_ok (st0 (obj0 ''/m/'' Map.empty))))) \<and>
   \<not> os_path_exists world_ok (config_fp ''/n/'') \<and>
   fst (load_config world_ok (st0 (obj0 ''/n/'' Map.empty))) =
     Inl (FileNotFoundError
            (''Expected to find configuration file at '' @ quoted ''/n/inference_config.py''))"
  using load_config_FileNotFoundError_iff [of world_ok "st0 (obj0 ''/m/'' Map.empty)"]
        load_config_FileNotFoundError_iff [of world_ok "st0 (obj0 ''/n/'' Map.empty)"]
  by (simp add: world_ok_def st0_def obj0_def config_fp_def os_path_join_def
        load_config_not_exists)

section \<open>Properties of \<^verbatim>\<open>load_model\<close>\<close>

lemma select_weights_Inr:
  "cs \<noteq> [] \<Longrightarrow> \<exists>out. select_weights sp cs = Inr (last cs, out) \<and> (\<forall>e \<in> set out. \<exists>f a. e = Print f a)"
  by (cases cs) (auto simp: select_weights_def last_conv_nth)

lemma select_weights_Nil:
  "select_weights sp [] = Inl (FileNotFoundError (''No weights files found in '' @ quoted sp))"
  by (simp add: select_weights_def)

lemma mrcnn_exclusion_prints:
  "\<forall>e \<in> set (snd (mrcnn_exclusion kw)). \<exists>f a. e = Print f a"
  by (simp add: mrcnn_exclusion_def Let_def)

lemma compile_model_Inr:
  assumes "compile_model w m s = (Inr r, s')"
  shows "\<exists>cfg lr lm. config (self s) = Value (Some cfg)
           \<and> getattr cfg ''LEARNING_RATE'' = Some lr \<and> getattr cfg ''LEARNING_MOMENTUM'' = Some lm
           \<and> r = None
           \<and> trace s' = trace s @ [Print ''Compiling model'' [], Call_compile lr lm]
           \<and> self s' = (self s)\<lparr>model := Value (Some (m\<lparr>compiled := Some (lr, lm)\<rparr>))\<rparr>
           \<and> sys_modules s' = sys_modules s"
  using assms
  by (auto simp: compile_model_def config_attr_def Let_def emit_def
           split: slot.splits option.splits sum.splits)

lemma build_model_Inr:
  assumes "build_model w f x s = (Inr r, s')"
  shows "\<exists>cfg lr lm. config (self s) = Value (Some cfg)
           \<and> getattr cfg ''LEARNING_RATE'' = Some lr \<and> getattr cfg ''LEARNING_MOMENTUM'' = Some lm
           \<and> r = None
           \<and> trace s' = trace s @
                [Print ''Instantiating model'' [], Call_MaskRCNN ''inference'' (Some cfg) ''.'',
                 Print ''Loading weights'' [], Call_load_weights f True x,
                 Print ''Compiling model'' [], Call_compile lr lm]
           \<and> self s' = (self s)\<lparr>model := Value (Some
                 \<lparr>mode = ''inference'', model_config = Some cfg, model_dir = ''.'',
                  weights = Some (f, True, x), compiled = Some (lr, lm)\<rparr>)\<rparr>
           \<and> sys_modules s' = sys_modules s"
proof -
  from assms obtain cfg0 where c: "config (self s) = Value cfg0"
    by (auto simp: build_model_def Let_def emit_def split: slot.splits)
  let ?m0 = "\<lparr>mode = ''inference'', model_config = cfg0, model_dir = ''.'',
              weights = Some (f, True, x), compiled = None\<rparr>"
  let ?s4 = "s\<lparr>trace := trace s @ [Print ''Instantiating model'' [],
               Call_MaskRCNN ''inference'' cfg0 ''.'', Print ''Loading weights'' [],
               Call_load_weights f True x]\<rparr>"
  from assms c have cm: "compile_model w ?m0 ?s4 = (Inr r, s')"
    by (auto simp: build_model_def new_model_def Let_def emit_def split: slot.splits option.splits)
  from compile_model_Inr [OF cm] c show ?thesis by auto
qed

lemma load_model_Inr:
  assumes "load_model w s = (Inr r, s')"
  defines "cs \<equiv> glob_glob w (weights_pattern (save_path (self s)))"
  shows "\<exists>cfg lr lm out. config (self s) = Value (Some cfg)
           \<and> getattr cfg ''LEARNING_RATE'' = Some lr \<and> getattr cfg ''LEARNING_MOMENTUM'' = Some lm
           \<and> r = None \<and> cs \<noteq> [] \<and> import_MaskRCNN w = None
           \<and> (\<forall>e \<in> set out. \<exists>f a. e = Print f a)
           \<and> trace s' = trace s @
                [Import_from ''zegami_ai.mrcnn.architecture.model'' ''MaskRCNN'',
                 Print (CHR 0x0A # ''[Loading Model]'') [],
                 Call_glob (weights_pattern (save_path (self s))) True] @ out @
                [Print ''Instantiating model'' [], Call_MaskRCNN ''inference'' (Some cfg) ''.'',
                 Print ''Loading weights'' [],
                 Call_load_weights (last cs) True (fst (mrcnn_exclusion (kwargs (self s)))),
                 Print ''Compiling model'' [], Call_compile lr lm]
           \<and> self s' = (self s)\<lparr>model := Value (Some
                 \<lparr>mode = ''inference'', model_config = Some cfg, model_dir = ''.'',
                  weights = Some (last cs, True, fst (mrcnn_exclusion (kwargs (self s)))),
                  compiled = Some (lr, lm)\<rparr>)\<rparr>
           \<and> sys_modules s' = sys_modules s"
proof -
  from assms(1) have imp: "import_MaskRCNN w = None"
    by (auto simp: load_model_def Let_def split: option.splits)
  have ne: "cs \<noteq> []"
  proof
    assume "cs = []"
    with assms(1) imp show False
      by (simp add: load_model_def Let_def emit_def cs_def select_weights_Nil)
  qed
  from select_weights_Inr [OF ne] obtain out where
    sel: "select_weights (save_path (self s)) cs = Inr (last cs, out)"
    and pr: "\<forall>e \<in> set out. \<exists>f a. e = Print f a" by blast
  let ?pre = "[Import_from ''zegami_ai.mrcnn.architecture.model'' ''MaskRCNN'',
               Print (CHR 0x0A # ''[Loading Model]'') [],
               Call_glob (weights_pattern (save_path (self s))) True]"
  let ?out = "out @ snd (mrcnn_exclusion (kwargs (self s)))"
  let ?s5 = "s\<lparr>trace := trace s @ ?pre @ ?out\<rparr>"
  from assms(1) imp sel
  have bm: "build_model w (last cs) (fst (mrcnn_exclusion (kwargs (self s)))) ?s5 = (Inr r, s')"
    by (simp add: load_model_def Let_def emit_def cs_def)
  from pr mrcnn_exclusion_prints [of "kwargs (self s)"]
  have pr': "\<forall>e \<in> set ?out. \<exists>f a. e = Print f a" by auto
  from build_model_Inr [OF bm] imp ne pr' show ?thesis
    by clarsimp
qed

lemma compile_model_no_FNF:
  "\<forall>msg. fst (compile_model w m s) \<noteq> Inl (FileNotFoundError msg)"
  by (auto simp: compile_model_def config_attr_def Let_def emit_def
           split: slot.splits option.splits sum.splits)

lemma build_model_start:
  "\<exists>es. trace (snd (build_model w f x s)) = trace s @ Print ''Instantiating model'' [] # es"
  by (auto simp: build_model_def compile_model_def config_attr_def Let_def emit_def
           split: slot.splits option.splits sum.splits)

lemma build_model_since:
  assumes "trace s0 = trace s @ pre"
  shows "Print ''Instantiating model'' [] \<in> set (since s (snd (build_model w f x s0)))"
proof -
  from build_model_start [of w f x s0] obtain es where
    "trace (snd (build_model w f x s0)) = trace s0 @ Print ''Instantiating model'' [] # es"
    by blast
  with assms have "trace (snd (build_model w f x s0)) =
      trace s @ (pre @ Print ''Instantiating model'' [] # es)" by simp
  then have "since s (snd (build_model w f x s0)) = pre @ Print ''Instantiating model'' [] # es"
    by (rule since_append)
  then show ?thesis by simp
qed

lemma build_model_no_FNF:
  "\<forall>msg. fst (build_model w f x s) \<noteq> Inl (FileNotFoundError msg)"
  using compile_model_no_FNF
  by (auto simp: build_model_def Let_def emit_def split: slot.splits option.splits)

lemma load_model_import_fails:
  "import_MaskRCNN w = Some e \<Longrightarrow> fst (load_model w s) = Inl (External e)"
  by (simp add: load_model_def Let_def)

lemma load_model_no_candidates:
  "import_MaskRCNN w = None \<Longrightarrow> glob_glob w (weights_pattern (save_path (self s))) = [] \<Longrightarrow>
     fst (load_model w s) =
       Inl (FileNotFoundError (''No weights files found in '' @ quoted (save_path (self s))))"
  by (simp add: load_model_def Let_def emit_def select_weights_Nil)

lemma load_model_candidates:
  assumes "import_MaskRCNN w = None"
    and "glob_glob w (weights_pattern (save_path (self s))) = cs" and "cs \<noteq> []"
  shows "\<exists>out. select_weights (save_path (self s)) cs = Inr (last cs, out) \<and>
           load_model w s =
             build_model w (last cs) (fst (mrcnn_exclusion (kwargs (self s))))
               (s\<lparr>trace := trace s @
                    [Import_from ''zegami_ai.mrcnn.architecture.model'' ''MaskRCNN'',
                     Print (CHR 0x0A # ''[Loading Model]'') [],
                     Call_glob (weights_pattern (save_path (self s))) True]
                    @ out @ snd (mrcnn_exclusion (kwargs (self s)))\<rparr>)"
proof -
  from select_weights_Inr [OF assms(3)] obtain out where
    sel: "select_weights (save_path (self s)) cs = Inr (last cs, out)" by blast
  with assms(1,2) show ?thesis
    by (simp add: load_model_def Let_def emit_def)
qed

lemma st_cfg_simps:
  "trace (st_cfg kw) = []"
  "sys_modules (st_cfg kw) = Map.empty"
  "save_path (self (st_cfg kw)) = ''/m/''"
  "kwargs (self (st_cfg kw)) = kw"
  "config (self (st_cfg kw)) = Value (Some cfg0)"
  "model (self (st_cfg kw)) = Unset"
  by (simp_all add: st_cfg_def st0_def obj0_def)

lemma load_model_world_ok:
  "load_model world_ok (st_cfg kw) =
     (Inr None,
      \<lparr>self = (obj0 ''/m/'' kw)\<lparr>config := Value (Some cfg0),
           model := Value (Some \<lparr>mode = ''inference'', model_config = Some cfg0, model_dir = ''.'',
                     weights = Some (''/m/sub/a.h5'', True, fst (mrcnn_exclusion kw)),
                     compiled = Some (Data (PyFloat 1 (- 3)), Data (PyFloat 9 (- 1)))\<rparr>)\<rparr>,
       sys_modules = Map.empty,
       trace = [Import_from ''zegami_ai.mrcnn.architecture.model'' ''MaskRCNN'',
                Print (CHR 0x0A # ''[Loading Model]'') [],
                Call_glob ''/m/**/*.h5'' True,
                Print (''Multiple weights found: '' @ quoted ''{}'') [AStrs [''/m/z.h5'', ''/m/sub/a.h5'']],
                Print (''Using weights: '' @ quoted ''{}'') [AStr ''/m/sub/a.h5'']]
               @ snd (mrcnn_exclusion kw) @
               [Print ''Instantiating model'' [], Call_MaskRCNN ''inference'' (Some cfg0) ''.'',
                Print ''Loading weights'' [],
                Call_load_weights ''/m/sub/a.h5'' True (fst (mrcnn_exclusion kw)),
                Print ''Compiling model'' [],
                Call_compile (Data (PyFloat 1 (- 3))) (Data (PyFloat 9 (- 1)))]\<rparr>)"
  by (simp add: load_model_def build_model_def new_model_def compile_model_def config_attr_def getattr_def
        select_weights_def weights_pattern_def world_ok_def st_cfg_def st0_def obj0_def
        cfg0_def emit_def Let_def)

text \<open>
  Claim C4. \<^verbatim>\<open>load_model\<close> raises its file-not-found error exactly when its search is
  made (the import before it did not raise) and yields no candidate. When the search
  yields a candidate, the check does not fail: a weights file is selected, it is one of
  the candidates, and the method goes on to the model.
\<close>

theorem load_model_FileNotFoundError_iff:
  "((\<exists>msg. fst (load_model w s) = Inl (FileNotFoundError msg))
      \<longleftrightarrow> import_MaskRCNN w = None \<and> glob_glob w (weights_pattern (save_path (self s))) = []) \<and>
   (import_MaskRCNN w = None \<and> glob_glob w (weights_pattern (save_path (self s))) \<noteq> [] \<longrightarrow>
      (\<exists>wfp' out.
          select_weights (save_path (self s)) (glob_glob w (weights_pattern (save_path (self s))))
            = Inr (wfp', out) \<and>
          wfp' \<in> set (glob_glob w (weights_pattern (save_path (self s))))) \<and>
      Print ''Instantiating model'' [] \<in> set (since s (snd (load_model w s))))"
proof (cases "import_MaskRCNN w")
  case (Some e)
  then show ?thesis by (simp add: load_model_import_fails)
next
  case None
  show ?thesis
  proof (cases "glob_glob w (weights_pattern (save_path (self s))) = []")
    case True
    with None show ?thesis by (simp add: load_model_no_candidates)
  next
    case False
    from load_model_candidates [OF None refl False] obtain out where
      sel: "select_weights (save_path (self s)) (glob_glob w (weights_pattern (save_path (self s))))
              = Inr (last (glob_glob w (weights_pattern (save_path (self s)))), out)"
      and lm: "load_model w s =
             build_model w (last (glob_glob w (weights_pattern (save_path (self s)))))
               (fst (mrcnn_exclusion (kwargs (self s))))
               (s\<lparr>trace := trace s @
                    [Import_from ''zegami_ai.mrcnn.architecture.model'' ''MaskRCNN'',
                     Print (CHR 0x0A # ''[Loading Model]'') [],
                     Call_glob (weights_pattern (save_path (self s))) True]
                    @ out @ snd (mrcnn_exclusion (kwargs (self s)))\<rparr>)"
      by blast
    have nf: "\<forall>msg. fst (load_model w s) \<noteq> Inl (FileNotFoundError msg)"
      unfolding lm by (rule build_model_no_FNF)
    have pr: "Print ''Instantiating model'' [] \<in> set (since s (snd (load_model w s)))"
      unfolding lm by (rule build_model_since) simp
    from sel False have sel': "\<exists>wfp' out.
          select_weights (save_path (self s)) (glob_glob w (weights_pattern (save_path (self s))))
            = Inr (wfp', out) \<and>
          wfp' \<in> set (glob_glob w (weights_pattern (save_path (self s))))"
      by auto
    from sel' False nf pr None show ?thesis by simp
  qed
qed

theorem load_model_FileNotFoundError_iff_witness:
  "import_MaskRCNN world_ok = None \<and>
   glob_glob world_ok (weights_pattern ''/m/'') = [''/m/z.h5'', ''/m/sub/a.h5''] \<and>
   Print ''Instantiating model'' []
     \<in> set (since (st_cfg Map.empty) (snd (load_model world_ok (st_cfg Map.empty)))) \<and>
   import_MaskRCNN (world_ok\<lparr>glob_glob := \<lambda>p. []\<rparr>) = None \<and>
   fst (load_model (world_ok\<lparr>glob_glob := \<lambda>p. []\<rparr>) (st_cfg Map.empty)) =
     Inl (FileNotFoundError (''No weights files found in '' @ quoted ''/m/''))"
  using load_model_FileNotFoundError_iff [of world_ok "st_cfg Map.empty"]
        load_model_FileNotFoundError_iff [of "world_ok\<lparr>glob_glob := \<lambda>p. []\<rparr>" "st_cfg Map.empty"]
  by (simp add: load_model_world_ok load_model_no_candidates since_def st_cfg_simps
        mrcnn_exclusion_def world_ok_def weights_pattern_def)

lemma prints_no_model_call:
  "\<forall>e \<in> set out. \<exists>f a. e = Print f a \<Longrightarrow> filter is_model_call out = []"
  by (induction out) auto

lemma prints_no_load_weights:
  "\<forall>e \<in> set out. \<exists>f a. e = Print f a \<Longrightarrow> concat (map load_weights_args out) = []"
  by (induction out) auto

text \<open>
  Claim C6. On a run of \<^verbatim>\<open>load_model\<close> that returns, the calls into the model library
  are exactly three, each made once, in this order: the constructor \<^verbatim>\<open>MaskRCNN\<close>,
  \<^verbatim>\<open>load_weights\<close> on the selected weights file, and \<^verbatim>\<open>compile\<close> with the
  configuration's \<^verbatim>\<open>LEARNING_RATE\<close> and \<^verbatim>\<open>LEARNING_MOMENTUM\<close>.
\<close>

theorem load_model_three_calls:
  assumes "fst (load_model w s) = Inr r"
  shows "\<exists>cfg lr lm.
           config (self s) = Value (Some cfg) \<and>
           getattr cfg ''LEARNING_RATE'' = Some lr \<and>
           getattr cfg ''LEARNING_MOMENTUM'' = Some lm \<and>
           filter is_model_call (since s (snd (load_model w s))) =
             [Call_MaskRCNN ''inference'' (Some cfg) ''.'',
              Call_load_weights (last (glob_glob w (weights_pattern (save_path (self s))))) True
                (fst (mrcnn_exclusion (kwargs (self s)))),
              Call_compile lr lm]"
proof -
  from assms have "load_model w s = (Inr r, snd (load_model w s))"
    by (metis prod.collapse)
  from load_model_Inr [OF this] obtain cfg lr lm out where
    c: "config (self s) = Value (Some cfg)"
    and lr: "getattr cfg ''LEARNING_RATE'' = Some lr"
    and lm: "getattr cfg ''LEARNING_MOMENTUM'' = Some lm"
    and pr: "\<forall>e \<in> set out. \<exists>f a. e = Print f a"
    and tr: "trace (snd (load_model w s)) = trace s @
                [Import_from ''zegami_ai.mrcnn.architecture.model'' ''MaskRCNN'',
                 Print (CHR 0x0A # ''[Loading Model]'') [],
                 Call_glob (weights_pattern (save_path (self s))) True] @ out @
                [Print ''Instantiating model'' [], Call_MaskRCNN ''inference'' (Some cfg) ''.'',
                 Print ''Loading weights'' [],
                 Call_load_weights (last (glob_glob w (weights_pattern (save_path (self s))))) True
                   (fst (mrcnn_exclusion (kwargs (self s)))),
                 Print ''Compiling model'' [], Call_compile lr lm]"
    by blast
  from tr have "since s (snd (load_model w s)) =
                [Import_from ''zegami_ai.mrcnn.architecture.model'' ''MaskRCNN'',
                 Print (CHR 0x0A # ''[Loading Model]'') [],
                 Call_glob (weights_pattern (save_path (self s))) True] @ out @
                [Print ''Instantiating model'' [], Call_MaskRCNN ''inference'' (Some cfg) ''.'',
                 Print ''Loading weights'' [],
                 Call_load_weights (last (glob_glob w (weights_pattern (save_path (self s))))) True
                   (fst (mrcnn_exclusion (kwargs (self s)))),
                 Print ''Compiling model'' [], Call_compile lr lm]"
    by (rule since_append)
  with prints_no_model_call [OF pr] c lr lm show ?thesis by simp
qed

theorem load_model_three_calls_witness:
  "fst (load_model world_ok (st_cfg Map.empty)) = Inr None \<and>
   filter is_model_call (since (st_cfg Map.empty) (snd (load_model world_ok (st_cfg Map.empty)))) =
     [Call_MaskRCNN ''inference'' (Some cfg0) ''.'',
      Call_load_weights ''/m/sub/a.h5'' True [],
      Call_compile (Data (PyFloat 1 (- 3))) (Data (PyFloat 9 (- 1)))]"
  using load_model_three_calls [of world_ok "st_cfg Map.empty" None]
  by (simp add: load_model_world_ok since_def st_cfg_simps mrcnn_exclusion_def)

text \<open>
  Claim C10. On a run of \<^verbatim>\<open>load_model\<close> that returns, \<^verbatim>\<open>load_weights\<close> is called once,
  with \<^verbatim>\<open>by_name=True\<close> and an exclusion list that is the five layer names when the
  keyword argument \<^verbatim>\<open>use_mrcnn_exclusion\<close> is present with a true value, and the empty
  list when it is absent or false.
\<close>

theorem load_weights_by_name_and_exclusion:
  assumes "fst (load_model w s) = Inr r"
  shows "concat (map load_weights_args (since s (snd (load_model w s)))) =
           [(last (glob_glob w (weights_pattern (save_path (self s)))), True,
             if (case kwargs (self s) ''use_mrcnn_exclusion'' of None \<Rightarrow> False | Some v \<Rightarrow> truthy v)
             then [''mrcnn_class_logits'', ''mrcnn_bbox_fc'', ''mrcnn_bbox'', ''mrcnn_mask'', ''rpn_model'']
             else [])]"
proof -
  from assms have "load_model w s = (Inr r, snd (load_model w s))"
    by (metis prod.collapse)
  from load_model_Inr [OF this] obtain cfg lr lm out where
    pr: "\<forall>e \<in> set out. \<exists>f a. e = Print f a"
    and tr: "trace (snd (load_model w s)) = trace s @
                [Import_from ''zegami_ai.mrcnn.architecture.model'' ''MaskRCNN'',
                 Print (CHR 0x0A # ''[Loading Model]'') [],
                 Call_glob (weights_pattern (save_path (self s))) True] @ out @
                [Print ''Instantiating model'' [], Call_MaskRCNN ''inference'' (Some cfg) ''.'',
                 Print ''Loading weights'' [],
                 Call_load_weights (last (glob_glob w (weights_pattern (save_path (self s))))) True
                   (fst (mrcnn_exclusion (kwargs (self s)))),
                 Print ''Compiling model'' [], Call_compile lr lm]"
    by blast
  from tr have "since s (snd (load_model w s)) =
                [Import_from ''zegami_ai.mrcnn.architecture.model'' ''MaskRCNN'',
                 Print (CHR 0x0A # ''[Loading Model]'') [],
                 Call_glob (weights_pattern (save_path (self s))) True] @ out @
                [Print ''Instantiating model'' [], Call_MaskRCNN ''inference'' (Some cfg) ''.'',
                 Print ''Loading weights'' [],
                 Call_load_weights (last (glob_glob w (weights_pattern (save_path (self s))))) True
                   (fst (mrcnn_exclusion (kwargs (self s)))),
                 Print ''Compiling model'' [], Call_compile lr lm]"
    by (rule since_append)
  with prints_no_load_weights [OF pr] show ?thesis
    by (simp add: mrcnn_exclusion_def Let_def split: option.splits)
qed

theorem load_weights_by_name_and_exclusion_witness:
  "fst (load_model world_ok (st_cfg (Map.empty(''use_mrcnn_exclusion'' \<mapsto> PyBool True)))) = Inr None \<and>
   concat (map load_weights_args
     (since (st_cfg (Map.empty(''use_mrcnn_exclusion'' \<mapsto> PyBool True)))
        (snd (load_model world_ok (st_cfg (Map.empty(''use_mrcnn_exclusion'' \<mapsto> PyBool True))))))) =
     [(''/m/sub/a.h5'', True,
       [''mrcnn_class_logits'', ''mrcnn_bbox_fc'', ''mrcnn_bbox'', ''mrcnn_mask'', ''rpn_model''])] \<and>
   fst (load_model world_ok (st_cfg (Map.empty(''use_mrcnn_exclusion'' \<mapsto> PyInt 0)))) = Inr None \<and>
   concat (map load_weights_args
     (since (st_cfg (Map.empty(''use_mrcnn_exclusion'' \<mapsto> PyInt 0)))
        (snd (load_model world_ok (st_cfg (Map.empty(''use_mrcnn_exclusion'' \<mapsto> PyInt 0))))))) =
     [(''/m/sub/a.h5'', True, [])] \<and>
   fst (load_model world_ok (st_cfg Map.empty)) = Inr None \<and>
   concat (map load_weights_args
     (since (st_cfg Map.empty) (snd (load_model world_ok (st_cfg Map.empty))))) =
     [(''/m/sub/a.h5'', True, [])]"
  using load_weights_by_name_and_exclusion
          [of world_ok "st_cfg (Map.empty(''use_mrcnn_exclusion'' \<mapsto> PyBool True))" None]
        load_weights_by_name_and_exclusion
          [of world_ok "st_cfg (Map.empty(''use_mrcnn_exclusion'' \<mapsto> PyInt 0))" None]
        load_weights_by_name_and_exclusion [of world_ok "st_cfg Map.empty" None]
  by (simp add: load_model_world_ok since_def st_cfg_simps mrcnn_exclusion_def)

section \<open>Exceptions of foreign code\<close>

lemma load_config_exec_raises:
  "os_path_exists w (config_fp (save_path (self s))) \<Longrightarrow>
   fst (exec_module w (config_fp (save_path (self s)))) = Some e \<Longrightarrow>
   fst (load_config w s) = Inl (External e)"
  by (simp add: load_config_def Let_def emit_def)

lemma load_config_instantiate_raises:
  "os_path_exists w (config_fp (save_path (self s))) \<Longrightarrow>
   fst (exec_module w (config_fp (save_path (self s)))) = None \<Longrightarrow>
   InferenceConfig (snd (exec_module w (config_fp (save_path (self s))))) = Some (Inl e) \<Longrightarrow>
   fst (load_config w s) = Inl (External e)"
  by (simp add: load_config_def Let_def emit_def)

lemma build_model_MaskRCNN_raises:
  "config (self s) = Value c \<Longrightarrow> MaskRCNN w ''inference'' c ''.'' = Some e \<Longrightarrow>
   fst (build_model w f x s) = Inl (External e)"
  by (simp add: build_model_def Let_def emit_def)

lemma build_model_load_weights_raises:
  "config (self s) = Value c \<Longrightarrow> MaskRCNN w ''inference'' c ''.'' = None \<Longrightarrow>
   load_weights w (new_model ''inference'' c ''.'') f True x = Some e \<Longrightarrow>
   fst (build_model w f x s) = Inl (External e)"
  by (simp add: build_model_def Let_def emit_def)

lemma build_model_compile_raises:
  "config (self s) = Value (Some cfg) \<Longrightarrow> MaskRCNN w ''inference'' (Some cfg) ''.'' = None \<Longrightarrow>
   load_weights w (new_model ''inference'' (Some cfg) ''.'') f True x = None \<Longrightarrow>
   getattr cfg ''LEARNING_RATE'' = Some lr \<Longrightarrow> getattr cfg ''LEARNING_MOMENTUM'' = Some lm \<Longrightarrow>
   compile w ((new_model ''inference'' (Some cfg) ''.'')\<lparr>weights := Some (f, True, x)\<rparr>) lr lm = Some e \<Longrightarrow>
   fst (build_model w f x s) = Inl (External e)"
  by (simp add: build_model_def compile_model_def config_attr_def Let_def emit_def)

lemma load_model_build:
  assumes "import_MaskRCNN w = None"
    and "glob_glob w (weights_pattern (save_path (self s))) \<noteq> []"
  shows "\<exists>s0. self s0 = self s \<and>
           load_model w s =
             build_model w (last (glob_glob w (weights_pattern (save_path (self s)))))
               (fst (mrcnn_exclusion (kwargs (self s)))) s0"
proof -
  from load_model_candidates [OF assms(1) refl assms(2)] obtain out where
    "load_model w s =
       build_model w (last (glob_glob w (weights_pattern (save_path (self s)))))
         (fst (mrcnn_exclusion (kwargs (self s))))
         (s\<lparr>trace := trace s @
              [Import_from ''zegami_ai.mrcnn.architecture.model'' ''MaskRCNN'',
               Print (CHR 0x0A # ''[Loading Model]'') [],
               Call_glob (weights_pattern (save_path (self s))) True]
              @ out @ snd (mrcnn_exclusion (kwargs (self s)))\<rparr>)"
    by blast
  then show ?thesis
    by (intro exI [where x = "s\<lparr>trace := trace s @
              [Import_from ''zegami_ai.mrcnn.architecture.model'' ''MaskRCNN'',
               Print (CHR 0x0A # ''[Loading Model]'') [],
               Call_glob (weights_pattern (save_path (self s))) True]
              @ out @ snd (mrcnn_exclusion (kwargs (self s)))\<rparr>"]) simp
qed

lemma init_base_raises:
  "TrainedModel_init w sp kw = Inl e \<Longrightarrow> fst (init w sp kw s) = Inl (External e)"
  by (simp add: init_def)

lemma init_load_config_raises:
  "TrainedModel_init w sp kw = Inr obj \<Longrightarrow> fst (load_config w (s\<lparr>self := obj\<rparr>)) = Inl x \<Longrightarrow>
   fst (init w sp kw s) = Inl x"
  by (cases "load_config w (s\<lparr>self := obj\<rparr>)") (simp add: init_def)

lemma init_load_model_raises:
  "TrainedModel_init w sp kw = Inr obj \<Longrightarrow> load_config w (s\<lparr>self := obj\<rparr>) = (Inr r, s1) \<Longrightarrow>
   fst (load_model w (s1\<lparr>self := (self s1)\<lparr>config := Value r\<rparr>\<rparr>)) = Inl x \<Longrightarrow>
   fst (init w sp kw s) = Inl x"
  by (cases "load_model w (s1\<lparr>self := (self s1)\<lparr>config := Value r\<rparr>\<rparr>)") (simp add: init_def)

text \<open>
  Claim C7. An exception raised inside a foreign call leaves the method that made the
  call as it is, and \<^verbatim>\<open>__init__\<close> hands on whatever its two methods raise: executing
  the configuration module, instantiating the configuration class, the import of the
  model library, the model constructor, \<^verbatim>\<open>load_weights\<close> and \<^verbatim>\<open>compile\<close>, and the base
  class's initialiser. Nothing is caught, changed or dropped.
\<close>

theorem external_exceptions_propagate:
  "(os_path_exists w (config_fp (save_path (self s))) \<and>
      fst (exec_module w (config_fp (save_path (self s)))) = Some e
      \<longrightarrow> fst (load_config w s) = Inl (External e)) \<and>
   (os_path_exists w (config_fp (save_path (self s))) \<and>
      fst (exec_module w (config_fp (save_path (self s)))) = None \<and>
      InferenceConfig (snd (exec_module w (config_fp (save_path (self s))))) = Some (Inl e)
      \<longrightarrow> fst (load_config w s) = Inl (External e)) \<and>
   (import_MaskRCNN w = Some e \<longrightarrow> fst (load_model w s) = Inl (External e)) \<and>
   (import_MaskRCNN w = None \<and> glob_glob w (weights_pattern (save_path (self s))) = cs \<and> cs \<noteq> [] \<and>
      config (self s) = Value c \<and> excl = fst (mrcnn_exclusion (kwargs (self s))) \<longrightarrow>
        (MaskRCNN w ''inference'' c ''.'' = Some e \<longrightarrow> fst (load_model w s) = Inl (External e)) \<and>
        (MaskRCNN w ''inference'' c ''.'' = None \<and>
           load_weights w (new_model ''inference'' c ''.'') (last cs) True excl = Some e
           \<longrightarrow> fst (load_model w s) = Inl (External e)) \<and>
        (MaskRCNN w ''inference'' c ''.'' = None \<and>
           load_weights w (new_model ''inference'' c ''.'') (last cs) True excl = None \<and>
           config_attr (Value c) ''LEARNING_RATE'' = Inr lr \<and>
           config_attr (Value c) ''LEARNING_MOMENTUM'' = Inr lm \<and>
           compile w ((new_model ''inference'' c ''.'')\<lparr>weights := Some (last cs, True, excl)\<rparr>) lr lm = Some e
           \<longrightarrow> fst (load_model w s) = Inl (External e))) \<and>
   (TrainedModel_init w sp kw = Inl e \<longrightarrow> fst (init w sp kw s) = Inl (External e)) \<and>
   (TrainedModel_init w sp kw = Inr obj \<and> fst (load_config w (s\<lparr>self := obj\<rparr>)) = Inl x
      \<longrightarrow> fst (init w sp kw s) = Inl x) \<and>
   (TrainedModel_init w sp kw = Inr obj \<and> load_config w (s\<lparr>self := obj\<rparr>) = (Inr r, s1) \<and>
      fst (load_model w (s1\<lparr>self := (self s1)\<lparr>config := Value r\<rparr>\<rparr>)) = Inl x
      \<longrightarrow> fst (init w sp kw s) = Inl x)"
proof (intro conjI impI; (elim conjE)?)
  assume "os_path_exists w (config_fp (save_path (self s)))"
    and "fst (exec_module w (config_fp (save_path (self s)))) = Some e"
  then show "fst (load_config w s) = Inl (External e)" by (rule load_config_exec_raises)
next
  assume "os_path_exists w (config_fp (save_path (self s)))"
    and "fst (exec_module w (config_fp (save_path (self s)))) = None"
    and "InferenceConfig (snd (exec_module w (config_fp (save_path (self s))))) = Some (Inl e)"
  then show "fst (load_config w s) = Inl (External e)" by (rule load_config_instantiate_raises)
next
  assume "import_MaskRCNN w = Some e"
  then show "fst (load_model w s) = Inl (External e)" by (rule load_model_import_fails)
next
  assume a: "import_MaskRCNN w = None" "glob_glob w (weights_pattern (save_path (self s))) = cs"
    "cs \<noteq> []" "config (self s) = Value c" "excl = fst (mrcnn_exclusion (kwargs (self s)))"
    and m: "MaskRCNN w ''inference'' c ''.'' = Some e"
  from load_model_build [of w s] a obtain s0 where
    "self s0 = self s" "load_model w s = build_model w (last cs) excl s0" by auto
  with a m show "fst (load_model w s) = Inl (External e)"
    by (simp add: build_model_MaskRCNN_raises)
next
  assume a: "import_MaskRCNN w = None" "glob_glob w (weights_pattern (save_path (self s))) = cs"
    "cs \<noteq> []" "config (self s) = Value c" "excl = fst (mrcnn_exclusion (kwargs (self s)))"
    and m: "MaskRCNN w ''inference'' c ''.'' = None"
      "load_weights w (new_model ''inference'' c ''.'') (last cs) True excl = Some e"
  from load_model_build [of w s] a obtain s0 where
    "self s0 = self s" "load_model w s = build_model w (last cs) excl s0" by auto
  with a m show "fst (load_model w s) = Inl (External e)"
    by (simp add: build_model_load_weights_raises)
next
  assume a: "import_MaskRCNN w = None" "glob_glob w (weights_pattern (save_path (self s))) = cs"
    "cs \<noteq> []" "config (self s) = Value c" "excl = fst (mrcnn_exclusion (kwargs (self s)))"
    and m: "MaskRCNN w ''inference'' c ''.'' = None"
      "load_weights w (new_model ''inference'' c ''.'') (last cs) True excl = None"
      "config_attr (Value c) ''LEARNING_RATE'' = Inr lr"
      "config_attr (Value c) ''LEARNING_MOMENTUM'' = Inr lm"
      "compile w ((new_model ''inference'' c ''.'')\<lparr>weights := Some (last cs, True, excl)\<rparr>) lr lm = Some e"
  from load_model_build [of w s] a obtain s0 where
    s0: "self s0 = self s" "load_model w s = build_model w (last cs) excl s0" by auto
  from m(3,4) obtain cfg where c: "c = Some cfg"
    "getattr cfg ''LEARNING_RATE'' = Some lr" "getattr cfg ''LEARNING_MOMENTUM'' = Some lm"
    by (auto simp: config_attr_def split: option.splits)
  from a m c s0 show "fst (load_model w s) = Inl (External e)"
    by (simp add: build_model_compile_raises)
next
  assume "TrainedModel_init w sp kw = Inl e"
  then show "fst (init w sp kw s) = Inl (External e)" by (rule init_base_raises)
next
  assume "TrainedModel_init w sp kw = Inr obj" "fst (load_config w (s\<lparr>self := obj\<rparr>)) = Inl x"
  then show "fst (init w sp kw s) = Inl x" by (rule init_load_config_raises)
next
  assume "TrainedModel_init w sp kw = Inr obj" "load_config w (s\<lparr>self := obj\<rparr>) = (Inr r, s1)"
    "fst (load_model w (s1\<lparr>self := (self s1)\<lparr>config := Value r\<rparr>\<rparr>)) = Inl x"
  then show "fst (init w sp kw s) = Inl x" by (rule init_load_model_raises)
qed

lemmas world_defs = world_ok_def world_exec_raises_def world_instantiate_raises_def
  world_MaskRCNN_raises_def world_load_weights_raises_def world_compile_raises_def
  world_import_raises_def world_base_raises_def world_one_def

lemma st0_simps:
  "trace (st0 obj) = []"
  "sys_modules (st0 obj) = Map.empty"
  "self (st0 obj) = obj"
  "save_path (obj0 sp kw) = sp"
  "kwargs (obj0 sp kw) = kw"
  "config (obj0 sp kw) = Unset"
  "model (obj0 sp kw) = Unset"
  by (simp_all add: st0_def obj0_def)

lemma config_fp_m: "config_fp ''/m/'' = ''/m/inference_config.py''"
  by (simp add: config_fp_def os_path_join_def)

theorem external_exceptions_propagate_witness:
  "fst (load_config world_exec_raises (st0 (obj0 ''/m/'' Map.empty))) = Inl (External ''SyntaxError'') \<and>
   fst (load_config world_instantiate_raises (st0 (obj0 ''/m/'' Map.empty))) = Inl (External ''TypeError'') \<and>
   fst (load_model world_MaskRCNN_raises (st_cfg Map.empty)) = Inl (External ''ValueError'') \<and>
   fst (load_model world_load_weights_raises (st_cfg Map.empty)) = Inl (External ''OSError'') \<and>
   fst (load_model world_compile_raises (st_cfg Map.empty)) = Inl (External ''RuntimeError'') \<and>
   fst (init world_exec_raises ''/m/'' Map.empty (st0 (obj0 [] Map.empty))) = Inl (External ''SyntaxError'') \<and>
   fst (init world_MaskRCNN_raises ''/m/'' Map.empty (st0 (obj0 [] Map.empty))) = Inl (External ''ValueError'') \<and>
   fst (load_model world_import_raises (st_cfg Map.empty)) = Inl (External ''ModuleNotFoundError'') \<and>
   fst (init world_base_raises ''/m/'' Map.empty (st0 (obj0 [] Map.empty))) = Inl (External ''AssertionError'')"
proof -
  let ?s = "st0 (obj0 ''/m/'' Map.empty)"
  have 8: "fst (load_model world_import_raises (st_cfg Map.empty)) = Inl (External ''ModuleNotFoundError'')"
    using external_exceptions_propagate [where w = world_import_raises and s = "st_cfg Map.empty"
        and e = "''ModuleNotFoundError''", THEN conjunct2, THEN conjunct2, THEN conjunct1]
    by (simp add: world_defs)
  have 9: "fst (init world_base_raises ''/m/'' Map.empty (st0 (obj0 [] Map.empty))) = Inl (External ''AssertionError'')"
    using external_exceptions_propagate [where w = world_base_raises and sp = "''/m/''"
        and kw = Map.empty and s = "st0 (obj0 [] Map.empty)" and e = "''AssertionError''",
        THEN conjunct2, THEN conjunct2, THEN conjunct2, THEN conjunct2, THEN conjunct1]
    by (simp add: world_defs)
  have 1: "fst (load_config world_exec_raises ?s) = Inl (External ''SyntaxError'')"
    using external_exceptions_propagate [where w = world_exec_raises and s = ?s and e = "''SyntaxError''"]
    by (simp add: world_defs st0_simps config_fp_m)
  have 2: "fst (load_config world_instantiate_raises ?s) = Inl (External ''TypeError'')"
    using external_exceptions_propagate [where w = world_instantiate_raises and s = ?s and e = "''TypeError''"]
    by (simp add: world_defs st0_simps config_fp_m module0_def)
  have 3: "fst (load_model world_MaskRCNN_raises (st_cfg Map.empty)) = Inl (External ''ValueError'')"
    using external_exceptions_propagate [where w = world_MaskRCNN_raises and s = "st_cfg Map.empty"
        and e = "''ValueError''" and cs = "[''/m/z.h5'', ''/m/sub/a.h5'']" and c = "Some cfg0"
        and excl = "[]"]
    by (simp add: world_defs st_cfg_simps weights_pattern_def mrcnn_exclusion_def)
  have 4: "fst (load_model world_load_weights_raises (st_cfg Map.empty)) = Inl (External ''OSError'')"
    using external_exceptions_propagate [where w = world_load_weights_raises and s = "st_cfg Map.empty"
        and e = "''OSError''" and cs = "[''/m/z.h5'', ''/m/sub/a.h5'']" and c = "Some cfg0"
        and excl = "[]"]
    by (simp add: world_defs st_cfg_simps weights_pattern_def mrcnn_exclusion_def)
  have 5: "fst (load_model world_compile_raises (st_cfg Map.empty)) = Inl (External ''RuntimeError'')"
    using external_exceptions_propagate [where w = world_compile_raises and s = "st_cfg Map.empty"
        and e = "''RuntimeError''" and cs = "[''/m/z.h5'', ''/m/sub/a.h5'']" and c = "Some cfg0"
        and excl = "[]" and lr = "Data (PyFloat 1 (- 3))" and lm = "Data (PyFloat 9 (- 1))"]
    by (simp add: world_defs st_cfg_simps weights_pattern_def mrcnn_exclusion_def
          config_attr_def getattr_def cfg0_def)
  have 6: "fst (init world_exec_raises ''/m/'' Map.empty (st0 (obj0 [] Map.empty))) = Inl (External ''SyntaxError'')"
    using external_exceptions_propagate [where w = world_exec_raises and s = "st0 (obj0 [] Map.empty)"
        and sp = "''/m/''" and kw = Map.empty and obj = "obj0 ''/m/'' Map.empty"
        and x = "External ''SyntaxError''"] 1
    by (simp add: world_defs st0_def obj0_def)
  let ?s1 = "snd (load_config world_MaskRCNN_raises ?s)"
  have lc: "load_config world_MaskRCNN_raises ?s = (Inr None, ?s1)"
    by (simp add: load_config_def world_defs st0_simps config_fp_m module0_def Let_def emit_def)
  have s1: "self ?s1 = (obj0 ''/m/'' Map.empty)\<lparr>config := Value (Some cfg0)\<rparr>"
    by (simp add: load_config_def world_defs st0_simps config_fp_m module0_def Let_def emit_def)
  have w: "import_MaskRCNN world_MaskRCNN_raises = None"
    "glob_glob world_MaskRCNN_raises (weights_pattern ''/m/'') = [''/m/z.h5'', ''/m/sub/a.h5'']"
    "MaskRCNN world_MaskRCNN_raises ''inference'' None ''.'' = Some ''ValueError''"
    "TrainedModel_init world_MaskRCNN_raises ''/m/'' Map.empty = Inr (obj0 ''/m/'' Map.empty)"
    by (simp_all add: world_defs weights_pattern_def obj0_def)
  have u: "(st0 (obj0 [] Map.empty))\<lparr>self := obj0 ''/m/'' Map.empty\<rparr> = ?s"
    by (simp add: st0_def)
  have lmr: "fst (load_model world_MaskRCNN_raises (?s1\<lparr>self := (self ?s1)\<lparr>config := Value None\<rparr>\<rparr>))
       = Inl (External ''ValueError'')"
    using external_exceptions_propagate [where w = world_MaskRCNN_raises
        and s = "?s1\<lparr>self := (self ?s1)\<lparr>config := Value None\<rparr>\<rparr>"
        and e = "''ValueError''" and cs = "[''/m/z.h5'', ''/m/sub/a.h5'']" and c = None
        and excl = "[]"]
    by (simp add: s1 w st0_simps mrcnn_exclusion_def)
  have 7: "fst (init world_MaskRCNN_raises ''/m/'' Map.empty (st0 (obj0 [] Map.empty))) = Inl (External ''ValueError'')"
    using external_exceptions_propagate [where w = world_MaskRCNN_raises and s = "st0 (obj0 [] Map.empty)"
        and sp = "''/m/''" and kw = Map.empty and obj = "obj0 ''/m/'' Map.empty"
        and x = "External ''ValueError''" and r = None and ?s1.0 = ?s1] lc lmr
    by (simp add: w u)
  from 1 2 3 4 5 6 7 8 9 show ?thesis by simp
qed

section \<open>What \<^verbatim>\<open>load_config\<close> imports and instantiates\<close>

lemma readout_filters:
  "filter is_exec_module (readout cfg) = []"
  "filter is_instantiation (readout cfg) = []"
  "filter is_model_call (readout cfg) = []"
  by (induction cfg) (auto simp: readout_def)

text \<open>What \<^verbatim>\<open>load_config\<close> does once the file check has passed, case by case.\<close>

lemma load_config_exec_raises_full:
  assumes "os_path_exists w (config_fp (save_path (self s)))"
    and "fst (exec_module w (config_fp (save_path (self s)))) = Some e"
  shows "load_config w s =
           (Inl (External e),
            s\<lparr>sys_modules := (sys_modules s)(''inference_config'' \<mapsto>
                   snd (exec_module w (config_fp (save_path (self s))))),
               trace := trace s @ [Print (CHR 0x0A # ''[Loading Config]'') [],
                   Call_exec_module ''inference_config'' (config_fp (save_path (self s)))]\<rparr>)"
  using assms by (simp add: load_config_def Let_def emit_def)

lemma load_config_no_class_full:
  assumes "os_path_exists w (config_fp (save_path (self s)))"
    and "fst (exec_module w (config_fp (save_path (self s)))) = None"
    and "InferenceConfig (snd (exec_module w (config_fp (save_path (self s))))) = None"
  shows "load_config w s =
           (Inl (AttributeError ''module'' ''InferenceConfig''),
            s\<lparr>sys_modules := (sys_modules s)(''inference_config'' \<mapsto>
                   snd (exec_module w (config_fp (save_path (self s))))),
               trace := trace s @ [Print (CHR 0x0A # ''[Loading Config]'') [],
                   Call_exec_module ''inference_config'' (config_fp (save_path (self s)))]\<rparr>)"
  using assms by (simp add: load_config_def Let_def emit_def)

lemma load_config_instantiate_raises_full:
  assumes "os_path_exists w (config_fp (save_path (self s)))"
    and "fst (exec_module w (config_fp (save_path (self s)))) = None"
    and "InferenceConfig (snd (exec_module w (config_fp (save_path (self s))))) = Some (Inl e)"
  shows "load_config w s =
           (Inl (External e),
            s\<lparr>sys_modules := (sys_modules s)(''inference_config'' \<mapsto>
                   snd (exec_module w (config_fp (save_path (self s))))),
               trace := trace s @ [Print (CHR 0x0A # ''[Loading Config]'') [],
                   Call_exec_module ''inference_config'' (config_fp (save_path (self s))),
                   Instantiate ''InferenceConfig'' []]\<rparr>)"
  using assms by (simp add: load_config_def Let_def emit_def)

lemma load_config_ok_full:
  assumes "os_path_exists w (config_fp (save_path (self s)))"
    and "fst (exec_module w (config_fp (save_path (self s)))) = None"
    and "InferenceConfig (snd (exec_module w (config_fp (save_path (self s))))) = Some (Inr cfg)"
  shows "load_config w s =
           (Inr None,
            s\<lparr>self := (self s)\<lparr>config := Value (Some cfg)\<rparr>,
               sys_modules := (sys_modules s)(''inference_config'' \<mapsto>
                   snd (exec_module w (config_fp (save_path (self s))))),
               trace := trace s @ [Print (CHR 0x0A # ''[Loading Config]'') [],
                   Call_exec_module ''inference_config'' (config_fp (save_path (self s))),
                   Instantiate ''InferenceConfig'' [],
                   Print ''Inference Config:'' []] @ readout cfg\<rparr>)"
  using assms by (simp add: load_config_def Let_def emit_def)

lemma load_config_cases:
  obtains
    (missing) "\<not> os_path_exists w (config_fp (save_path (self s)))"
  | (exec_raises) e where "os_path_exists w (config_fp (save_path (self s)))"
      "fst (exec_module w (config_fp (save_path (self s)))) = Some e"
  | (no_class) "os_path_exists w (config_fp (save_path (self s)))"
      "fst (exec_module w (config_fp (save_path (self s)))) = None"
      "InferenceConfig (snd (exec_module w (config_fp (save_path (self s))))) = None"
  | (instantiate_raises) e where "os_path_exists w (config_fp (save_path (self s)))"
      "fst (exec_module w (config_fp (save_path (self s)))) = None"
      "InferenceConfig (snd (exec_module w (config_fp (save_path (self s))))) = Some (Inl e)"
  | (ok) cfg where "os_path_exists w (config_fp (save_path (self s)))"
      "fst (exec_module w (config_fp (save_path (self s)))) = None"
      "InferenceConfig (snd (exec_module w (config_fp (save_path (self s))))) = Some (Inr cfg)"
proof (cases "os_path_exists w (config_fp (save_path (self s)))")
  case False
  then show ?thesis by (rule missing)
next
  case ex: True
  show ?thesis
  proof (cases "fst (exec_module w (config_fp (save_path (self s))))")
    case (Some e)
    with ex show ?thesis by (rule exec_raises)
  next
    case None
    show ?thesis
    proof (cases "InferenceConfig (snd (exec_module w (config_fp (save_path (self s)))))")
      case n: None
      from ex None n show ?thesis by (rule no_class)
    next
      case (Some r)
      then show ?thesis
      proof (cases r)
        case (Inl e)
        with ex None Some show ?thesis by (auto intro: instantiate_raises)
      next
        case (Inr cfg)
        with ex None Some show ?thesis by (auto intro: ok)
      qed
    qed
  qed
qed

text \<open>
  Claim C8, as amended. When the configuration file exists, \<^verbatim>\<open>load_config\<close> executes
  exactly that file as the module \<^verbatim>\<open>inference_config\<close>, once. It instantiates exactly one
  class, \<^verbatim>\<open>InferenceConfig\<close>, with no argument, when executing the module raises nothing
  and the module has that attribute; otherwise it instantiates no class at all. No other
  class is instantiated in any case.
\<close>

theorem load_config_imports_and_instantiates:
  assumes "os_path_exists w (config_fp (save_path (self s)))"
  shows "filter is_exec_module (since s (snd (load_config w s))) =
           [Call_exec_module ''inference_config'' (config_fp (save_path (self s)))] \<and>
         filter is_instantiation (since s (snd (load_config w s))) =
           (if fst (exec_module w (config_fp (save_path (self s)))) = None \<and>
               InferenceConfig (snd (exec_module w (config_fp (save_path (self s))))) \<noteq> None
            then [Instantiate ''InferenceConfig'' []] else [])"
proof (cases rule: load_config_cases [of w s])
  case missing
  with assms show ?thesis by simp
next
  case (exec_raises e)
  then show ?thesis by (simp add: load_config_exec_raises_full since_def)
next
  case no_class
  then show ?thesis by (simp add: load_config_no_class_full since_def)
next
  case (instantiate_raises e)
  then show ?thesis by (simp add: load_config_instantiate_raises_full since_def)
next
  case (ok cfg)
  then show ?thesis by (simp add: load_config_ok_full since_def readout_filters)
qed

theorem load_config_imports_and_instantiates_witness:
  "os_path_exists world_ok (config_fp ''/m/'') \<and>
   filter is_exec_module (since (st0 (obj0 ''/m/'' Map.empty))
       (snd (load_config world_ok (st0 (obj0 ''/m/'' Map.empty))))) =
     [Call_exec_module ''inference_config'' ''/m/inference_config.py''] \<and>
   filter is_instantiation (since (st0 (obj0 ''/m/'' Map.empty))
       (snd (load_config world_ok (st0 (obj0 ''/m/'' Map.empty))))) =
     [Instantiate ''InferenceConfig'' []]"
  using load_config_imports_and_instantiates [of world_ok "st0 (obj0 ''/m/'' Map.empty)"]
  by (simp add: st0_simps config_fp_m world_ok_def module0_def)

text \<open>
  The claim as it was stated fails where the file exists and executing it raises: the
  module is executed, no class is instantiated.
\<close>

theorem load_config_instantiates_none_counterexample:
  "os_path_exists world_exec_raises (config_fp ''/m/'') \<and>
   fst (load_config world_exec_raises (st0 (obj0 ''/m/'' Map.empty))) = Inl (External ''SyntaxError'') \<and>
   filter is_exec_module (since (st0 (obj0 ''/m/'' Map.empty))
       (snd (load_config world_exec_raises (st0 (obj0 ''/m/'' Map.empty))))) =
     [Call_exec_module ''inference_config'' ''/m/inference_config.py''] \<and>
   filter is_instantiation (since (st0 (obj0 ''/m/'' Map.empty))
       (snd (load_config world_exec_raises (st0 (obj0 ''/m/'' Map.empty))))) = []"
proof -
  have ex: "os_path_exists world_exec_raises (config_fp (save_path (self (st0 (obj0 ''/m/'' Map.empty)))))"
    by (simp add: st0_simps config_fp_m world_defs)
  have r: "fst (exec_module world_exec_raises (config_fp (save_path (self (st0 (obj0 ''/m/'' Map.empty))))))
      = Some ''SyntaxError''"
    by (simp add: world_defs)
  from ex have ex': "os_path_exists world_exec_raises (config_fp ''/m/'')" by (simp add: st0_simps)
  from load_config_exec_raises_full [OF ex r] ex' show ?thesis
    by (simp add: since_def st0_simps config_fp_m)
qed

section \<open>The state the methods leave behind\<close>

lemma build_model_fail_frame:
  "fst (build_model w f x s) = Inl e \<Longrightarrow> self (snd (build_model w f x s)) = self s"
  by (auto simp: build_model_def compile_model_def config_attr_def Let_def emit_def
           split: slot.splits option.splits sum.splits)

lemma build_model_MaskRCNN_config:
  "\<exists>es. trace (snd (build_model w f x s)) = trace s @ es \<and>
        (\<forall>m c d. Call_MaskRCNN m c d \<in> set es \<longrightarrow> config (self s) = Value c)"
  by (auto simp: build_model_def compile_model_def config_attr_def Let_def emit_def
           split: slot.splits option.splits sum.splits)

lemma build_model_None_config:
  assumes "config (self s) = Value None" and "MaskRCNN w ''inference'' None ''.'' = None"
    and "load_weights w (new_model ''inference'' None ''.'') f True x = None"
  shows "fst (build_model w f x s) = Inl (AttributeError ''NoneType'' ''LEARNING_RATE'')"
  using assms by (simp add: build_model_def compile_model_def config_attr_def Let_def emit_def)

text \<open>What \<^verbatim>\<open>load_model\<close> does, case by case.\<close>

lemma load_model_cases:
  obtains
    (import_raises) e where "import_MaskRCNN w = Some e"
      "load_model w s = (Inl (External e),
         s\<lparr>trace := trace s @ [Import_from ''zegami_ai.mrcnn.architecture.model'' ''MaskRCNN'']\<rparr>)"
  | (no_weights) "import_MaskRCNN w = None"
      "glob_glob w (weights_pattern (save_path (self s))) = []"
      "load_model w s =
         (Inl (FileNotFoundError (''No weights files found in '' @ quoted (save_path (self s)))),
          s\<lparr>trace := trace s @ [Import_from ''zegami_ai.mrcnn.architecture.model'' ''MaskRCNN'',
               Print (CHR 0x0A # ''[Loading Model]'') [],
               Call_glob (weights_pattern (save_path (self s))) True]\<rparr>)"
  | (build) pre where "import_MaskRCNN w = None"
      "glob_glob w (weights_pattern (save_path (self s))) \<noteq> []"
      "\<forall>e \<in> set pre. \<not> is_model_call e"
      "load_model w s =
         build_model w (last (glob_glob w (weights_pattern (save_path (self s)))))
           (fst (mrcnn_exclusion (kwargs (self s)))) (s\<lparr>trace := trace s @ pre\<rparr>)"
proof (cases "import_MaskRCNN w")
  case (Some e)
  then show ?thesis by (intro import_raises [of e]) (simp_all add: load_model_def Let_def emit_def)
next
  case None
  show ?thesis
  proof (cases "glob_glob w (weights_pattern (save_path (self s))) = []")
    case True
    with None show ?thesis
      by (intro no_weights) (simp_all add: load_model_def Let_def emit_def select_weights_Nil)
  next
    case False
    from select_weights_Inr [OF False, of "save_path (self s)"] obtain out where
      sel: "select_weights (save_path (self s)) (glob_glob w (weights_pattern (save_path (self s))))
              = Inr (last (glob_glob w (weights_pattern (save_path (self s)))), out)"
      and pr: "\<forall>e \<in> set out. \<exists>f a. e = Print f a" by blast
    let ?pre = "[Import_from ''zegami_ai.mrcnn.architecture.model'' ''MaskRCNN'',
               Print (CHR 0x0A # ''[Loading Model]'') [],
               Call_glob (weights_pattern (save_path (self s))) True]
              @ out @ snd (mrcnn_exclusion (kwargs (self s)))"
    from pr mrcnn_exclusion_prints [of "kwargs (self s)"]
    have "\<forall>e \<in> set ?pre. \<not> is_model_call e" by auto
    moreover from None sel have "load_model w s =
         build_model w (last (glob_glob w (weights_pattern (save_path (self s)))))
           (fst (mrcnn_exclusion (kwargs (self s)))) (s\<lparr>trace := trace s @ ?pre\<rparr>)"
      by (simp add: load_model_def Let_def emit_def)
    ultimately show ?thesis using None False by (intro build [of ?pre])
  qed
qed

lemma load_model_fail_frame:
  assumes "fst (load_model w s) = Inl e"
  shows "self (snd (load_model w s)) = self s"
proof (cases rule: load_model_cases [of w s])
  case (import_raises e)
  then show ?thesis by simp
next
  case no_weights
  then show ?thesis by simp
next
  case (build pre)
  with assms build_model_fail_frame [of w _ _ "s\<lparr>trace := trace s @ pre\<rparr>" e]
  show ?thesis by simp
qed

lemma load_model_MaskRCNN_config:
  "\<forall>m c d. Call_MaskRCNN m c d \<in> set (since s (snd (load_model w s))) \<longrightarrow> config (self s) = Value c"
proof (cases rule: load_model_cases [of w s])
  case (import_raises e)
  then show ?thesis by (simp add: since_def)
next
  case no_weights
  then show ?thesis by (simp add: since_def)
next
  case (build pre)
  from build_model_MaskRCNN_config
         [of w "last (glob_glob w (weights_pattern (save_path (self s))))"
             "fst (mrcnn_exclusion (kwargs (self s)))" "s\<lparr>trace := trace s @ pre\<rparr>"]
  have "\<exists>es. trace (snd (load_model w s)) = trace s @ pre @ es \<and>
          (\<forall>m c d. Call_MaskRCNN m c d \<in> set es \<longrightarrow> config (self s) = Value c)"
    unfolding build(4) by simp
  then obtain es where tr: "trace (snd (load_model w s)) = trace s @ pre @ es"
    and c: "\<forall>m c d. Call_MaskRCNN m c d \<in> set es \<longrightarrow> config (self s) = Value c"
    by blast
  from tr have "since s (snd (load_model w s)) = pre @ es" by (rule since_append)
  moreover from build(3) have "\<forall>m c d. Call_MaskRCNN m c d \<notin> set pre" by auto
  ultimately show ?thesis using c by auto
qed

lemma load_model_None_config_raises:
  assumes "config (self s) = Value None"
  shows "\<exists>e. fst (load_model w s) = Inl e"
proof (cases "fst (load_model w s)")
  case (Inl e)
  then show ?thesis by blast
next
  case (Inr r)
  then have "load_model w s = (Inr r, snd (load_model w s))" by (metis prod.collapse)
  from load_model_Inr [OF this] assms show ?thesis by auto
qed

lemma load_model_returns_None: "fst (load_model w s) = Inr r \<Longrightarrow> r = None"
proof -
  assume "fst (load_model w s) = Inr r"
  then have "load_model w s = (Inr r, snd (load_model w s))" by (metis prod.collapse)
  from load_model_Inr [OF this] show ?thesis by auto
qed

lemma load_config_Inr:
  assumes "fst (load_config w s) = Inr r"
  shows "\<exists>cfg. r = None \<and>
           InferenceConfig (snd (exec_module w (config_fp (save_path (self s))))) = Some (Inr cfg) \<and>
           self (snd (load_config w s)) = (self s)\<lparr>config := Value (Some cfg)\<rparr> \<and>
           trace (snd (load_config w s)) = trace s @ [Print (CHR 0x0A # ''[Loading Config]'') [],
                   Call_exec_module ''inference_config'' (config_fp (save_path (self s))),
                   Instantiate ''InferenceConfig'' [],
                   Print ''Inference Config:'' []] @ readout cfg"
proof (cases rule: load_config_cases [of w s])
  case missing
  with assms show ?thesis by (simp add: load_config_not_exists)
next
  case (exec_raises e)
  with assms show ?thesis by (simp add: load_config_exec_raises_full)
next
  case no_class
  with assms show ?thesis by (simp add: load_config_no_class_full)
next
  case (instantiate_raises e)
  with assms show ?thesis by (simp add: load_config_instantiate_raises_full)
next
  case (ok cfg)
  with assms show ?thesis by (simp add: load_config_ok_full)
qed

lemma load_config_frame:
  "save_path (self (snd (load_config w s))) = save_path (self s) \<and>
   kwargs (self (snd (load_config w s))) = kwargs (self s) \<and>
   model (self (snd (load_config w s))) = model (self s)"
proof (cases rule: load_config_cases [of w s])
  case missing
  then show ?thesis by (simp add: load_config_not_exists emit_def)
next
  case (exec_raises e)
  then show ?thesis by (simp add: load_config_exec_raises_full)
next
  case no_class
  then show ?thesis by (simp add: load_config_no_class_full)
next
  case (instantiate_raises e)
  then show ?thesis by (simp add: load_config_instantiate_raises_full)
next
  case (ok cfg)
  then show ?thesis by (simp add: load_config_ok_full)
qed

lemma load_config_sys_modules:
  assumes "os_path_exists w (config_fp (save_path (self s)))"
  shows "sys_modules (snd (load_config w s)) ''inference_config'' =
           Some (snd (exec_module w (config_fp (save_path (self s)))))"
proof (cases rule: load_config_cases [of w s])
  case missing
  with assms show ?thesis by simp
next
  case (exec_raises e)
  then show ?thesis by (simp add: load_config_exec_raises_full)
next
  case no_class
  then show ?thesis by (simp add: load_config_no_class_full)
next
  case (instantiate_raises e)
  then show ?thesis by (simp add: load_config_instantiate_raises_full)
next
  case (ok cfg)
  then show ?thesis by (simp add: load_config_ok_full)
qed

lemma load_model_frame:
  "save_path (self (snd (load_model w s))) = save_path (self s) \<and>
   kwargs (self (snd (load_model w s))) = kwargs (self s) \<and>
   config (self (snd (load_model w s))) = config (self s)"
proof (cases "fst (load_model w s)")
  case (Inl e)
  then show ?thesis by (simp add: load_model_fail_frame)
next
  case (Inr r)
  then have "load_model w s = (Inr r, snd (load_model w s))" by (metis prod.collapse)
  from load_model_Inr [OF this] show ?thesis by auto
qed

text \<open>
  Claim C9, as amended. Both methods leave state behind that outlives the call. Once the
  file check has passed, \<^verbatim>\<open>load_config\<close> leaves the module object in \<^verbatim>\<open>sys.modules\<close>
  under \<^verbatim>\<open>inference_config\<close> (also when executing it raises), and when it returns it has
  set the instance attribute \<^verbatim>\<open>config\<close> to the configuration object. When
  \<^verbatim>\<open>load_model\<close> returns it has set the instance attribute \<^verbatim>\<open>model\<close> to the compiled
  handle. Neither method changes \<^verbatim>\<open>save_path\<close> or \<^verbatim>\<open>kwargs\<close>.
\<close>

theorem loading_leaves_state:
  "(os_path_exists w (config_fp (save_path (self s))) \<longrightarrow>
      sys_modules (snd (load_config w s)) ''inference_config'' =
        Some (snd (exec_module w (config_fp (save_path (self s)))))) \<and>
   (fst (load_config w s) = Inr r \<longrightarrow>
      (\<exists>cfg. InferenceConfig (snd (exec_module w (config_fp (save_path (self s))))) = Some (Inr cfg) \<and>
             self (snd (load_config w s)) = (self s)\<lparr>config := Value (Some cfg)\<rparr>)) \<and>
   (fst (load_model w s) = Inr r' \<longrightarrow>
      (\<exists>cfg lr lm. config (self s) = Value (Some cfg) \<and>
         getattr cfg ''LEARNING_RATE'' = Some lr \<and> getattr cfg ''LEARNING_MOMENTUM'' = Some lm \<and>
         self (snd (load_model w s)) = (self s)\<lparr>model := Value (Some
            \<lparr>mode = ''inference'', model_config = Some cfg, model_dir = ''.'',
             weights = Some (last (glob_glob w (weights_pattern (save_path (self s)))), True,
                             fst (mrcnn_exclusion (kwargs (self s)))),
             compiled = Some (lr, lm)\<rparr>)\<rparr>)) \<and>
   save_path (self (snd (load_config w s))) = save_path (self s) \<and>
   kwargs (self (snd (load_config w s))) = kwargs (self s) \<and>
   save_path (self (snd (load_model w s))) = save_path (self s) \<and>
   kwargs (self (snd (load_model w s))) = kwargs (self s)"
proof -
  have 1: "os_path_exists w (config_fp (save_path (self s))) \<longrightarrow>
      sys_modules (snd (load_config w s)) ''inference_config'' =
        Some (snd (exec_module w (config_fp (save_path (self s)))))"
    by (simp add: load_config_sys_modules)
  have 2: "fst (load_config w s) = Inr r \<longrightarrow>
      (\<exists>cfg. InferenceConfig (snd (exec_module w (config_fp (save_path (self s))))) = Some (Inr cfg) \<and>
             self (snd (load_config w s)) = (self s)\<lparr>config := Value (Some cfg)\<rparr>)"
    using load_config_Inr [of w s r] by blast
  have 3: "fst (load_model w s) = Inr r' \<longrightarrow>
      (\<exists>cfg lr lm. config (self s) = Value (Some cfg) \<and>
         getattr cfg ''LEARNING_RATE'' = Some lr \<and> getattr cfg ''LEARNING_MOMENTUM'' = Some lm \<and>
         self (snd (load_model w s)) = (self s)\<lparr>model := Value (Some
            \<lparr>mode = ''inference'', model_config = Some cfg, model_dir = ''.'',
             weights = Some (last (glob_glob w (weights_pattern (save_path (self s)))), True,
                             fst (mrcnn_exclusion (kwargs (self s)))),
             compiled = Some (lr, lm)\<rparr>)\<rparr>)"
  proof
    assume "fst (load_model w s) = Inr r'"
    then have "load_model w s = (Inr r', snd (load_model w s))" by (metis prod.collapse)
    from load_model_Inr [OF this] show "\<exists>cfg lr lm. config (self s) = Value (Some cfg) \<and>
         getattr cfg ''LEARNING_RATE'' = Some lr \<and> getattr cfg ''LEARNING_MOMENTUM'' = Some lm \<and>
         self (snd (load_model w s)) = (self s)\<lparr>model := Value (Some
            \<lparr>mode = ''inference'', model_config = Some cfg, model_dir = ''.'',
             weights = Some (last (glob_glob w (weights_pattern (save_path (self s)))), True,
                             fst (mrcnn_exclusion (kwargs (self s)))),
             compiled = Some (lr, lm)\<rparr>)\<rparr>"
      by blast
  qed
  from 1 2 3 load_config_frame [of w s] load_model_frame [of w s] show ?thesis by simp
qed

lemma load_config_world_ok:
  "load_config world_ok (st0 (obj0 ''/m/'' kw)) =
     (Inr None,
      \<lparr>self = (obj0 ''/m/'' kw)\<lparr>config := Value (Some cfg0)\<rparr>,
       sys_modules = Map.empty(''inference_config'' \<mapsto> module0 ''/m/inference_config.py''),
       trace = [Print (CHR 0x0A # ''[Loading Config]'') [],
                Call_exec_module ''inference_config'' ''/m/inference_config.py'',
                Instantiate ''InferenceConfig'' [],
                Print ''Inference Config:'' []] @ readout cfg0\<rparr>)"
proof -
  have "os_path_exists world_ok (config_fp (save_path (self (st0 (obj0 ''/m/'' kw)))))"
    "fst (exec_module world_ok (config_fp (save_path (self (st0 (obj0 ''/m/'' kw)))))) = None"
    "InferenceConfig (snd (exec_module world_ok (config_fp (save_path (self (st0 (obj0 ''/m/'' kw)))))))
       = Some (Inr cfg0)"
    by (simp_all add: world_ok_def st0_simps config_fp_m module0_def)
  from load_config_ok_full [OF this] show ?thesis
    by (simp add: st0_simps config_fp_m world_ok_def st0_def)
qed

theorem loading_leaves_state_witness:
  "os_path_exists world_ok (config_fp ''/m/'') \<and>
   sys_modules (snd (load_config world_ok (st0 (obj0 ''/m/'' Map.empty)))) ''inference_config'' =
     Some (module0 ''/m/inference_config.py'') \<and>
   fst (load_config world_ok (st0 (obj0 ''/m/'' Map.empty))) = Inr None \<and>
   self (snd (load_config world_ok (st0 (obj0 ''/m/'' Map.empty)))) =
     (obj0 ''/m/'' Map.empty)\<lparr>config := Value (Some cfg0)\<rparr> \<and>
   fst (load_model world_ok (st_cfg Map.empty)) = Inr None \<and>
   model (self (snd (load_model world_ok (st_cfg Map.empty)))) =
     Value (Some \<lparr>mode = ''inference'', model_config = Some cfg0, model_dir = ''.'',
                  weights = Some (''/m/sub/a.h5'', True, []),
                  compiled = Some (Data (PyFloat 1 (- 3)), Data (PyFloat 9 (- 1)))\<rparr>)"
  using loading_leaves_state [of world_ok "st0 (obj0 ''/m/'' Map.empty)" None None]
        loading_leaves_state [of world_ok "st_cfg Map.empty" None None]
  by (simp add: load_config_world_ok load_model_world_ok config_fp_m mrcnn_exclusion_def)
     (simp add: world_ok_def)

text \<open>
  The claim as it was stated fails in the world where nothing raises: the entry of
  \<^verbatim>\<open>sys.modules\<close> and the two instance attributes are there after the calls and were
  not before.
\<close>

theorem state_outlives_loading_counterexample:
  "sys_modules (st0 (obj0 ''/m/'' Map.empty)) ''inference_config'' = None \<and>
   sys_modules (snd (load_config world_ok (st0 (obj0 ''/m/'' Map.empty)))) ''inference_config'' =
     Some (module0 ''/m/inference_config.py'') \<and>
   config (self (st0 (obj0 ''/m/'' Map.empty))) = Unset \<and>
   config (self (snd (load_config world_ok (st0 (obj0 ''/m/'' Map.empty))))) = Value (Some cfg0) \<and>
   model (self (st_cfg Map.empty)) = Unset \<and>
   model (self (snd (load_model world_ok (st_cfg Map.empty)))) =
     Value (Some \<lparr>mode = ''inference'', model_config = Some cfg0, model_dir = ''.'',
                  weights = Some (''/m/sub/a.h5'', True, []),
                  compiled = Some (Data (PyFloat 1 (- 3)), Data (PyFloat 9 (- 1)))\<rparr>)"
  by (simp add: load_config_world_ok load_model_world_ok st0_simps st_cfg_simps mrcnn_exclusion_def)

section \<open>\<^verbatim>\<open>__init__\<close> and the value of \<^verbatim>\<open>load_config\<close>\<close>

lemma load_model_trace:
  "\<exists>es. trace (snd (load_model w s)) = trace s @ es \<and>
        (\<forall>m c d. Call_MaskRCNN m c d \<in> set es \<longrightarrow> config (self s) = Value c)"
proof (cases rule: load_model_cases [of w s])
  case (import_raises e)
  then show ?thesis by simp
next
  case no_weights
  then show ?thesis by simp
next
  case (build pre)
  from build_model_MaskRCNN_config
         [of w "last (glob_glob w (weights_pattern (save_path (self s))))"
             "fst (mrcnn_exclusion (kwargs (self s)))" "s\<lparr>trace := trace s @ pre\<rparr>"]
  have "\<exists>es. trace (snd (load_model w s)) = trace s @ pre @ es \<and>
          (\<forall>m c d. Call_MaskRCNN m c d \<in> set es \<longrightarrow> config (self s) = Value c)"
    unfolding build(4) by simp
  then obtain es where tr: "trace (snd (load_model w s)) = trace s @ pre @ es"
    and c: "\<forall>m c d. Call_MaskRCNN m c d \<in> set es \<longrightarrow> config (self s) = Value c"
    by blast
  from build(3) have "\<forall>m c d. Call_MaskRCNN m c d \<notin> set pre" by auto
  with tr c show ?thesis by (intro exI [where x = "pre @ es"]) auto
qed

lemma readout_no_MaskRCNN: "Call_MaskRCNN m c d \<notin> set (readout cfg)"
  by (auto simp: readout_def)

lemma load_model_None_config_AttributeError:
  assumes "config (self s) = Value None" and "import_MaskRCNN w = None"
    and "glob_glob w (weights_pattern (save_path (self s))) \<noteq> []"
    and "MaskRCNN w ''inference'' None ''.'' = None"
    and "load_weights w (new_model ''inference'' None ''.'')
           (last (glob_glob w (weights_pattern (save_path (self s))))) True
           (fst (mrcnn_exclusion (kwargs (self s)))) = None"
  shows "fst (load_model w s) = Inl (AttributeError ''NoneType'' ''LEARNING_RATE'')"
proof (cases rule: load_model_cases [of w s])
  case (import_raises e)
  with assms show ?thesis by simp
next
  case no_weights
  with assms show ?thesis by simp
next
  case (build pre)
  from assms(1) have "config (self (s\<lparr>trace := trace s @ pre\<rparr>)) = Value None" by simp
  from build_model_None_config [OF this assms(4,5)] build(4) show ?thesis by simp
qed

text \<open>
  \<^verbatim>\<open>__init__\<close> after \<^verbatim>\<open>load_config\<close> has returned: \<^verbatim>\<open>load_model\<close> runs in a state whose
  \<^verbatim>\<open>config\<close> is \<^verbatim>\<open>None\<close>, raises, and that is the outcome.
\<close>

lemma init_after_load_config:
  assumes b: "TrainedModel_init w sp kw = Inr obj"
    and lc: "fst (load_config w (s\<lparr>self := obj\<rparr>)) = Inr r"
  shows "\<exists>s3 es1 e. r = None \<and> self s3 = obj\<lparr>config := Value None\<rparr> \<and>
           trace s3 = trace s @ es1 \<and> (\<forall>m c d. Call_MaskRCNN m c d \<notin> set es1) \<and>
           fst (load_model w s3) = Inl e \<and>
           init w sp kw s = (Inl e, snd (load_model w s3))"
proof -
  let ?s1 = "s\<lparr>self := obj\<rparr>"
  obtain s2 where lcp: "load_config w ?s1 = (Inr r, s2)"
    using lc by (cases "load_config w ?s1") simp
  let ?s3 = "s2\<lparr>self := (self s2)\<lparr>config := Value r\<rparr>\<rparr>"
  from load_config_Inr [OF lc] lcp obtain cfg where
    r: "r = None" and sf: "self s2 = obj\<lparr>config := Value (Some cfg)\<rparr>"
    and tr: "trace s2 = trace s @ [Print (CHR 0x0A # ''[Loading Config]'') [],
                   Call_exec_module ''inference_config'' (config_fp (save_path obj)),
                   Instantiate ''InferenceConfig'' [],
                   Print ''Inference Config:'' []] @ readout cfg"
    by auto
  let ?es1 = "[Print (CHR 0x0A # ''[Loading Config]'') [],
                   Call_exec_module ''inference_config'' (config_fp (save_path obj)),
                   Instantiate ''InferenceConfig'' [],
                   Print ''Inference Config:'' []] @ readout cfg"
  have s3: "self ?s3 = obj\<lparr>config := Value None\<rparr>" using sf r by simp
  then have "config (self ?s3) = Value None" by simp
  from load_model_None_config_raises [OF this] obtain e where
    e: "fst (load_model w ?s3) = Inl e" by blast
  obtain s4 where lmp: "load_model w ?s3 = (Inl e, s4)"
    using e by (cases "load_model w ?s3") simp
  have i: "init w sp kw s = (Inl e, snd (load_model w ?s3))"
    by (simp add: init_def b lcp lmp)
  have t3: "trace ?s3 = trace s @ ?es1" using tr by simp
  have no: "\<forall>m c d. Call_MaskRCNN m c d \<notin> set ?es1" by (simp add: readout_no_MaskRCNN)
  from r s3 t3 no e i show ?thesis by blast
qed

text \<open>
  Claim C2. The claim follows \<^verbatim>\<open>__init__\<close> to its end: \<^verbatim>\<open>load_model\<close> reads the two
  learning parameters from \<^verbatim>\<open>None\<close>, returns, and \<^verbatim>\<open>model\<close> is set. The code does not
  get there, and this is a defect of the code. \<^verbatim>\<open>load_config\<close> stores the instantiated
  configuration in \<^verbatim>\<open>config\<close> (line 58) and has no return statement, so in every run of
  \<^verbatim>\<open>__init__\<close> in which it returns, it returns \<^verbatim>\<open>None\<close> and line 35 overwrites the
  configuration with it. \<^verbatim>\<open>load_model\<close>, whose docstring promises the already-instantiated
  inference configuration, then gives \<^verbatim>\<open>None\<close> to the model constructor, and when the
  constructor and \<^verbatim>\<open>load_weights\<close> raise nothing, reading \<^verbatim>\<open>LEARNING_RATE\<close> of \<^verbatim>\<open>None\<close>
  raises \<^verbatim>\<open>AttributeError\<close>. So \<^verbatim>\<open>__init__\<close> always ends with an exception: no instance
  is ever constructed, \<^verbatim>\<open>config\<close> is left \<^verbatim>\<open>None\<close> and \<^verbatim>\<open>model\<close> is never assigned.
  (\<^verbatim>\<open>load_model\<close> has no return statement either: whenever it returns, on an instance
  whose \<^verbatim>\<open>config\<close> is set, it returns \<^verbatim>\<open>None\<close>.)
\<close>

theorem init_config_is_None:
  assumes "TrainedModel_init w sp kw = Inr obj"
    and "fst (load_config w (s\<lparr>self := obj\<rparr>)) = Inr r"
  shows "r = None \<and>
         (\<forall>m c d. Call_MaskRCNN m c d \<in> set (since s (snd (init w sp kw s))) \<longrightarrow> c = None) \<and>
         (\<exists>e. fst (init w sp kw s) = Inl e) \<and>
         (import_MaskRCNN w = None \<and> glob_glob w (weights_pattern (save_path obj)) \<noteq> [] \<and>
            MaskRCNN w ''inference'' None ''.'' = None \<and>
            load_weights w (new_model ''inference'' None ''.'')
              (last (glob_glob w (weights_pattern (save_path obj)))) True
              (fst (mrcnn_exclusion (kwargs obj))) = None
            \<longrightarrow> fst (init w sp kw s) = Inl (AttributeError ''NoneType'' ''LEARNING_RATE'')) \<and>
         config (self (snd (init w sp kw s))) = Value None \<and>
         model (self (snd (init w sp kw s))) = model obj \<and>
         (\<forall>w' s' r'. fst (load_model w' s') = Inr r' \<longrightarrow> r' = None)"
proof -
  from init_after_load_config [OF assms] obtain s3 es1 e where
    r: "r = None" and s3: "self s3 = obj\<lparr>config := Value None\<rparr>"
    and t3: "trace s3 = trace s @ es1" and no: "\<forall>m c d. Call_MaskRCNN m c d \<notin> set es1"
    and e: "fst (load_model w s3) = Inl e"
    and i: "init w sp kw s = (Inl e, snd (load_model w s3))"
    by blast
  from load_model_trace [of w s3] obtain es where
    tr: "trace (snd (load_model w s3)) = trace s3 @ es"
    and c: "\<forall>m c d. Call_MaskRCNN m c d \<in> set es \<longrightarrow> config (self s3) = Value c"
    by blast
  from tr t3 i have "trace (snd (init w sp kw s)) = trace s @ (es1 @ es)" by simp
  then have sn: "since s (snd (init w sp kw s)) = es1 @ es" by (rule since_append)
  have 2: "\<forall>m c d. Call_MaskRCNN m c d \<in> set (since s (snd (init w sp kw s))) \<longrightarrow> c = None"
  proof (intro allI impI)
    fix m c' d
    assume "Call_MaskRCNN m c' d \<in> set (since s (snd (init w sp kw s)))"
    with sn no have "Call_MaskRCNN m c' d \<in> set es" by simp
    with c have "config (self s3) = Value c'" by blast
    with s3 show "c' = None" by simp
  qed
  have 3: "\<exists>e. fst (init w sp kw s) = Inl e" using i by simp
  have 4: "import_MaskRCNN w = None \<and> glob_glob w (weights_pattern (save_path obj)) \<noteq> [] \<and>
            MaskRCNN w ''inference'' None ''.'' = None \<and>
            load_weights w (new_model ''inference'' None ''.'')
              (last (glob_glob w (weights_pattern (save_path obj)))) True
              (fst (mrcnn_exclusion (kwargs obj))) = None
            \<longrightarrow> fst (init w sp kw s) = Inl (AttributeError ''NoneType'' ''LEARNING_RATE'')"
  proof (intro impI, elim conjE)
    assume a: "import_MaskRCNN w = None" "glob_glob w (weights_pattern (save_path obj)) \<noteq> []"
      "MaskRCNN w ''inference'' None ''.'' = None"
      "load_weights w (new_model ''inference'' None ''.'')
              (last (glob_glob w (weights_pattern (save_path obj)))) True
              (fst (mrcnn_exclusion (kwargs obj))) = None"
    have "fst (load_model w s3) = Inl (AttributeError ''NoneType'' ''LEARNING_RATE'')"
      by (rule load_model_None_config_AttributeError) (use a s3 in simp_all)
    with i e show "fst (init w sp kw s) = Inl (AttributeError ''NoneType'' ''LEARNING_RATE'')"
      by simp
  qed
  from load_model_fail_frame [OF e] s3 i
  have 5: "config (self (snd (init w sp kw s))) = Value None"
    and 6: "model (self (snd (init w sp kw s))) = model obj" by simp_all
  have 7: "\<forall>w' s' r'. fst (load_model w' s') = Inr r' \<longrightarrow> r' = None"
    using load_model_returns_None by blast
  from r 2 3 4 5 6 7 show ?thesis by blast
qed

text \<open>
  The failing input: a save directory \<^verbatim>\<open>/m/\<close> with a configuration file that defines
  \<^verbatim>\<open>InferenceConfig\<close> with both learning parameters, with weights files, and no foreign
  call raising. \<^verbatim>\<open>MrcnnTrainedModel('/m/')\<close> raises \<^verbatim>\<open>AttributeError\<close>.
\<close>

theorem init_config_is_None_witness:
  "TrainedModel_init world_ok ''/m/'' Map.empty = Inr (obj0 ''/m/'' Map.empty) \<and>
   fst (load_config world_ok ((st0 (obj0 [] Map.empty))\<lparr>self := obj0 ''/m/'' Map.empty\<rparr>)) = Inr None \<and>
   fst (init world_ok ''/m/'' Map.empty (st0 (obj0 [] Map.empty))) =
     Inl (AttributeError ''NoneType'' ''LEARNING_RATE'') \<and>
   config (self (snd (init world_ok ''/m/'' Map.empty (st0 (obj0 [] Map.empty))))) = Value None \<and>
   model (self (snd (init world_ok ''/m/'' Map.empty (st0 (obj0 [] Map.empty))))) = model (obj0 ''/m/'' Map.empty)"
proof -
  have u: "(st0 (obj0 [] Map.empty))\<lparr>self := obj0 ''/m/'' Map.empty\<rparr> = st0 (obj0 ''/m/'' Map.empty)"
    by (simp add: st0_def)
  have b: "TrainedModel_init world_ok ''/m/'' Map.empty = Inr (obj0 ''/m/'' Map.empty)"
    by (simp add: world_ok_def obj0_def)
  have lc: "fst (load_config world_ok ((st0 (obj0 [] Map.empty))\<lparr>self := obj0 ''/m/'' Map.empty\<rparr>)) = Inr None"
    by (simp add: u load_config_world_ok)
  have w: "import_MaskRCNN world_ok = None"
    "glob_glob world_ok (weights_pattern (save_path (obj0 ''/m/'' Map.empty))) \<noteq> []"
    "MaskRCNN world_ok ''inference'' None ''.'' = None"
    "load_weights world_ok (new_model ''inference'' None ''.'')
        (last (glob_glob world_ok (weights_pattern (save_path (obj0 ''/m/'' Map.empty))))) True
        (fst (mrcnn_exclusion (kwargs (obj0 ''/m/'' Map.empty)))) = None"
    by (simp_all add: world_ok_def weights_pattern_def st0_simps)
  from init_config_is_None [OF b lc] w b lc show ?thesis by simp
qed

section \<open>Which weights file is selected\<close>

lemma build_model_load_weights_file:
  "\<exists>es. trace (snd (build_model w f x s)) = trace s @ es \<and>
        (\<forall>f' b x'. Call_load_weights f' b x' \<in> set es \<longrightarrow> f' = f)"
  by (auto simp: build_model_def compile_model_def config_attr_def Let_def emit_def
           split: slot.splits option.splits sum.splits)

lemma load_model_load_weights_file:
  "\<forall>f b x. Call_load_weights f b x \<in> set (since s (snd (load_model w s))) \<longrightarrow>
      f = last (glob_glob w (weights_pattern (save_path (self s))))"
proof (cases rule: load_model_cases [of w s])
  case (import_raises e)
  then show ?thesis by (simp add: since_def)
next
  case no_weights
  then show ?thesis by (simp add: since_def)
next
  case (build pre)
  from build_model_load_weights_file
         [of w "last (glob_glob w (weights_pattern (save_path (self s))))"
             "fst (mrcnn_exclusion (kwargs (self s)))" "s\<lparr>trace := trace s @ pre\<rparr>"]
  have "\<exists>es. trace (snd (load_model w s)) = trace s @ pre @ es \<and>
          (\<forall>f b x. Call_load_weights f b x \<in> set es \<longrightarrow>
              f = last (glob_glob w (weights_pattern (save_path (self s)))))"
    unfolding build(4) by simp
  then obtain es where tr: "trace (snd (load_model w s)) = trace s @ pre @ es"
    and c: "\<forall>f b x. Call_load_weights f b x \<in> set es \<longrightarrow>
              f = last (glob_glob w (weights_pattern (save_path (self s))))"
    by blast
  from tr have sn: "since s (snd (load_model w s)) = pre @ es" by (rule since_append)
  from build(3) have no: "\<forall>f b x. Call_load_weights f b x \<notin> set pre" by auto
  show ?thesis
  proof (intro allI impI)
    fix f b x
    assume "Call_load_weights f b x \<in> set (since s (snd (load_model w s)))"
    with sn no have "Call_load_weights f b x \<in> set es" by simp
    with c show "f = last (glob_glob w (weights_pattern (save_path (self s))))" by blast
  qed
qed

lemma fold_max_sorted:
  fixes cs :: "('a :: linorder) list"
  shows "sorted (a # cs) \<Longrightarrow> fold max cs a = last (a # cs)"
proof (induction cs arbitrary: a)
  case Nil
  then show ?case by simp
next
  case (Cons c cs)
  then have "a \<le> c" and "sorted (c # cs)" by simp_all
  with Cons.IH [of c] show ?case by (simp add: max_absorb2)
qed

lemma lexicographically_last_sorted:
  "cs \<noteq> [] \<Longrightarrow> sorted cs \<Longrightarrow> lexicographically_last cs = last cs"
proof (cases cs)
  case Nil
  then show "cs \<noteq> [] \<Longrightarrow> ?thesis" by simp
next
  case (Cons a as)
  assume "sorted cs"
  with Cons have "fold max as a = last (a # as)" by (simp add: fold_max_sorted del: last.simps)
  with Cons show ?thesis by (simp add: lexicographically_last_def)
qed

text \<open>
  Claim C5, as amended. When the search yields candidates, \<^verbatim>\<open>load_model\<close> selects the
  last element of the list \<^verbatim>\<open>glob\<close> returned, in the order \<^verbatim>\<open>glob\<close> returned it, and that
  is the only file \<^verbatim>\<open>load_weights\<close> is called on; with exactly one candidate it is that
  candidate. If the list is sorted in ascending order, the selected file is the
  lexicographically last candidate.
\<close>

theorem load_model_selects_last_candidate:
  assumes "import_MaskRCNN w = None"
    and "glob_glob w (weights_pattern (save_path (self s))) = cs"
    and "cs \<noteq> []"
  shows "(\<exists>out. select_weights (save_path (self s)) cs = Inr (last cs, out)) \<and>
         (\<forall>f b x. Call_load_weights f b x \<in> set (since s (snd (load_model w s))) \<longrightarrow> f = last cs) \<and>
         (length cs = 1 \<longrightarrow> last cs = cs ! 0) \<and>
         (sorted cs \<longrightarrow> last cs = lexicographically_last cs)"
proof -
  from select_weights_Inr [OF assms(3), of "save_path (self s)"]
  have 1: "\<exists>out. select_weights (save_path (self s)) cs = Inr (last cs, out)" by blast
  from load_model_load_weights_file [of s w] assms(2)
  have 2: "\<forall>f b x. Call_load_weights f b x \<in> set (since s (snd (load_model w s))) \<longrightarrow> f = last cs"
    by simp
  have 3: "length cs = 1 \<longrightarrow> last cs = cs ! 0"
    using assms(3) by (auto simp: last_conv_nth)
  have 4: "sorted cs \<longrightarrow> last cs = lexicographically_last cs"
    using assms(3) by (simp add: lexicographically_last_sorted)
  from 1 2 3 4 show ?thesis by blast
qed

lemma py_glob_fs_m: "py_glob fs_m (weights_pattern ''/m/'') = Some [''/m/z.h5'', ''/m/sub/a.h5'']"
  by code_simp

lemma lexicographically_last_example:
  "lexicographically_last [''/m/z.h5'', ''/m/sub/a.h5''] = ''/m/z.h5''"
  by (simp add: lexicographically_last_def max_def)

lemma py_glob_fs_sorted: "py_glob fs_sorted (weights_pattern ''/m/'') = Some [''/m/a.h5'', ''/m/b.h5'']"
  by code_simp

lemma load_model_world_sorted:
  "fst (load_model world_sorted (st_cfg Map.empty)) = Inr None \<and>
   concat (map load_weights_args (since (st_cfg Map.empty) (snd (load_model world_sorted (st_cfg Map.empty)))))
     = [(''/m/b.h5'', True, [])]"
  by (simp add: load_model_def build_model_def new_model_def compile_model_def config_attr_def getattr_def
        select_weights_def weights_pattern_def world_sorted_def world_ok_def st_cfg_def st0_def obj0_def
        cfg0_def emit_def Let_def since_def mrcnn_exclusion_def)

text \<open>
  Three instances: two candidates that \<^verbatim>\<open>glob\<close> returns out of order, one candidate, and
  two candidates in ascending order, where the file loaded is the lexicographically last.
\<close>

theorem load_model_selects_last_candidate_witness:
  "import_MaskRCNN world_ok = None \<and>
   glob_glob world_ok (weights_pattern (save_path (self (st_cfg Map.empty)))) = [''/m/z.h5'', ''/m/sub/a.h5''] \<and>
   (\<exists>out. select_weights ''/m/'' [''/m/z.h5'', ''/m/sub/a.h5''] = Inr (''/m/sub/a.h5'', out)) \<and>
   concat (map load_weights_args (since (st_cfg Map.empty) (snd (load_model world_ok (st_cfg Map.empty)))))
     = [(''/m/sub/a.h5'', True, [])] \<and>
   import_MaskRCNN world_one = None \<and>
   glob_glob world_one (weights_pattern (save_path (self (st_cfg Map.empty)))) = [''/m/only.h5''] \<and>
   (\<exists>out. select_weights ''/m/'' [''/m/only.h5''] = Inr (''/m/only.h5'', out)) \<and>
   lexicographically_last [''/m/only.h5''] = ''/m/only.h5'' \<and>
   import_MaskRCNN world_sorted = None \<and>
   py_glob fs_sorted (weights_pattern ''/m/'') = Some [''/m/a.h5'', ''/m/b.h5''] \<and>
   glob_glob world_sorted (weights_pattern (save_path (self (st_cfg Map.empty)))) = [''/m/a.h5'', ''/m/b.h5''] \<and>
   sorted [''/m/a.h5'', ''/m/b.h5''] \<and>
   (\<exists>out. select_weights ''/m/'' [''/m/a.h5'', ''/m/b.h5''] = Inr (''/m/b.h5'', out)) \<and>
   concat (map load_weights_args (since (st_cfg Map.empty) (snd (load_model world_sorted (st_cfg Map.empty)))))
     = [(''/m/b.h5'', True, [])] \<and>
   lexicographically_last [''/m/a.h5'', ''/m/b.h5''] = ''/m/b.h5''"
proof -
  have a: "import_MaskRCNN world_ok = None"
    "glob_glob world_ok (weights_pattern (save_path (self (st_cfg Map.empty)))) = [''/m/z.h5'', ''/m/sub/a.h5'']"
    "[''/m/z.h5'', ''/m/sub/a.h5''] \<noteq> []"
    by (simp_all add: world_ok_def st_cfg_simps weights_pattern_def)
  have b: "import_MaskRCNN world_one = None"
    "glob_glob world_one (weights_pattern (save_path (self (st_cfg Map.empty)))) = [''/m/only.h5'']"
    "[''/m/only.h5''] \<noteq> []"
    by (simp_all add: world_defs)
  have c: "import_MaskRCNN world_sorted = None"
    "glob_glob world_sorted (weights_pattern (save_path (self (st_cfg Map.empty)))) = [''/m/a.h5'', ''/m/b.h5'']"
    "[''/m/a.h5'', ''/m/b.h5''] \<noteq> []"
    by (simp_all add: world_sorted_def world_ok_def)
  have srt: "sorted [''/m/a.h5'', ''/m/b.h5'']" by simp
  from load_model_selects_last_candidate [OF c] srt
  have sel: "(\<exists>out. select_weights ''/m/'' [''/m/a.h5'', ''/m/b.h5''] = Inr (''/m/b.h5'', out)) \<and>
             lexicographically_last [''/m/a.h5'', ''/m/b.h5''] = ''/m/b.h5''"
    by (simp add: st_cfg_simps)
  from load_model_selects_last_candidate [OF a] load_model_selects_last_candidate [OF b] a b
  have ab: "(\<exists>out. select_weights ''/m/'' [''/m/z.h5'', ''/m/sub/a.h5''] = Inr (''/m/sub/a.h5'', out)) \<and>
     concat (map load_weights_args (since (st_cfg Map.empty) (snd (load_model world_ok (st_cfg Map.empty)))))
       = [(''/m/sub/a.h5'', True, [])] \<and>
     (\<exists>out. select_weights ''/m/'' [''/m/only.h5''] = Inr (''/m/only.h5'', out)) \<and>
     lexicographically_last [''/m/only.h5''] = ''/m/only.h5''"
    by (simp add: st_cfg_simps load_model_world_ok since_def mrcnn_exclusion_def)
  from a b c srt sel ab py_glob_fs_sorted load_model_world_sorted show ?thesis by simp
qed

text \<open>
  The claim as it was stated fails on the file system \<open>fs_m\<close>: \<^verbatim>\<open>glob\<close> lists the
  directory itself before its subdirectories, so the last candidate is \<^verbatim>\<open>/m/sub/a.h5\<close>,
  and the lexicographically last one is \<^verbatim>\<open>/m/z.h5\<close>.
\<close>

theorem last_candidate_not_lexicographically_last_counterexample:
  "py_glob fs_m (weights_pattern ''/m/'') = Some [''/m/z.h5'', ''/m/sub/a.h5''] \<and>
   glob_glob world_ok (weights_pattern ''/m/'') = [''/m/z.h5'', ''/m/sub/a.h5''] \<and>
   fst (load_model world_ok (st_cfg Map.empty)) = Inr None \<and>
   concat (map load_weights_args (since (st_cfg Map.empty) (snd (load_model world_ok (st_cfg Map.empty)))))
     = [(''/m/sub/a.h5'', True, [])] \<and>
   lexicographically_last [''/m/z.h5'', ''/m/sub/a.h5''] = ''/m/z.h5'' \<and>
   ''/m/sub/a.h5'' \<noteq> lexicographically_last [''/m/z.h5'', ''/m/sub/a.h5'']"
  by (simp add: py_glob_fs_m lexicographically_last_example load_model_world_ok since_def
        st_cfg_simps mrcnn_exclusion_def)
     (simp add: world_ok_def weights_pattern_def)

section \<open>What the weights search finds\<close>

lemma split_path_not_Nil: "split_path p \<noteq> []"
  by (cases p) auto

lemma split_path_append_slash:
  "split_path (a @ CHR ''/'' # b) = split_path a @ split_path b"
proof (induction a)
  case Nil
  then show ?case by simp
next
  case (Cons c a)
  then show ?case using split_path_not_Nil [of a] by (cases "split_path a") auto
qed

lemma split_path_no_slash: "CHR ''/'' \<notin> set x \<Longrightarrow> split_path x = [x]"
  by (induction x) auto

lemma walk_append:
  "walk st (a @ b) = (case walk st a of None \<Rightarrow> None | Some st' \<Rightarrow> walk st' b)"
  by (induction st a rule: walk.induct) (auto split: option.splits)

lemma walk_empty_component:
  assumes "walk st [[]] = Some st'"
  shows "st' = st \<and> (\<exists>es anc. st = Dir es # anc)"
proof (cases st)
  case Nil
  with assms show ?thesis by simp
next
  case (Cons n anc)
  with assms show ?thesis by (cases n) auto
qed

text \<open>
  A path that ends in a slash and resolves: the paths that continue it resolve from
  the directory it names.
\<close>

lemma resolve_start:
  "p \<noteq> [] \<Longrightarrow>
   resolve fs p =
     (case (if hd p = CHR ''/'' then Some [root fs] else walk [root fs] (cwd fs)) of
        None \<Rightarrow> None
      | Some st \<Rightarrow> walk st (split_path p))"
  by (simp add: resolve_def)

lemma resolve_slash:
  assumes "resolve fs (d @ ''/'') = Some (n # anc)"
  shows "is_dir n \<and> (\<forall>r. resolve fs (d @ ''/'' @ r) = walk (n # anc) (split_path r)) \<and>
         (d \<noteq> [] \<longrightarrow> resolve fs d = Some (n # anc))"
proof -
  define start where
    "start = (if hd (d @ ''/'') = CHR ''/'' then Some [root fs] else walk [root fs] (cwd fs))"
  have hd: "hd (d @ ''/'' @ r) = hd (d @ ''/'')" for r by (cases d) auto
  have hd': "d \<noteq> [] \<Longrightarrow> hd d = hd (d @ ''/'')" by (cases d) auto
  have sp: "split_path (d @ ''/'' @ r) = split_path d @ split_path r" for r
    using split_path_append_slash [of d r] by simp
  have r1: "resolve fs (d @ ''/'' @ r) =
      (case start of None \<Rightarrow> None | Some st \<Rightarrow> walk st (split_path d @ split_path r))" for r
  proof -
    have "resolve fs (d @ ''/'' @ r) =
       (case (if hd (d @ ''/'' @ r) = CHR ''/'' then Some [root fs] else walk [root fs] (cwd fs)) of
          None \<Rightarrow> None
        | Some st \<Rightarrow> walk st (split_path (d @ ''/'' @ r)))"
      by (rule resolve_start) simp
    then show ?thesis unfolding sp hd start_def .
  qed
  have r2: "d \<noteq> [] \<Longrightarrow> resolve fs d =
      (case start of None \<Rightarrow> None | Some st \<Rightarrow> walk st (split_path d))"
  proof -
    assume ne: "d \<noteq> []"
    then have "resolve fs d =
       (case (if hd d = CHR ''/'' then Some [root fs] else walk [root fs] (cwd fs)) of
          None \<Rightarrow> None
        | Some st \<Rightarrow> walk st (split_path d))"
      by (rule resolve_start)
    then show ?thesis unfolding hd' [OF ne] start_def .
  qed
  from assms r1 [of "[]"] obtain st0 where s0: "start = Some st0"
    and "walk st0 (split_path d @ [[]]) = Some (n # anc)"
    by (cases start) auto
  then obtain st' where 1: "walk st0 (split_path d) = Some st'"
    and 2: "walk st' [[]] = Some (n # anc)"
    by (auto simp: walk_append split: option.splits)
  from walk_empty_component [OF 2] have 3: "st' = n # anc" and 4: "is_dir n" by auto
  have 5: "resolve fs (d @ ''/'' @ r) = walk (n # anc) (split_path r)" for r
    unfolding r1 s0 using 1 3 by (simp add: walk_append)
  have 6: "d \<noteq> [] \<longrightarrow> resolve fs d = Some (n # anc)"
    using r2 s0 1 3 by simp
  from 4 5 6 show ?thesis by blast
qed

lemma fnmatch_literal:
  "\<forall>c \<in> set lit. c \<noteq> CHR ''*'' \<and> c \<noteq> CHR ''?'' \<Longrightarrow> fnmatch n lit \<longleftrightarrow> n = lit"
  by (induction n lit rule: fnmatch.induct) auto

lemma fnmatch_star_literal:
  assumes "\<forall>c \<in> set lit. c \<noteq> CHR ''*'' \<and> c \<noteq> CHR ''?''"
  shows "fnmatch n (CHR ''*'' # lit) \<longleftrightarrow> suffix lit n"
proof (induction n)
  case Nil
  show ?case
  proof (cases lit)
    case Nil
    then show ?thesis by simp
  next
    case (Cons a as)
    with assms show ?thesis by simp
  qed
next
  case (Cons c cs)
  have "fnmatch (c # cs) (CHR ''*'' # lit) \<longleftrightarrow> fnmatch (c # cs) lit \<or> fnmatch cs (CHR ''*'' # lit)"
    by simp
  also have "\<dots> \<longleftrightarrow> c # cs = lit \<or> suffix lit cs"
    using Cons.IH fnmatch_literal [OF assms] by simp
  also have "\<dots> \<longleftrightarrow> suffix lit (c # cs)"
    by (auto simp: suffix_Cons)
  finally show ?case .
qed

lemma fnmatch_h5: "fnmatch x ''*.h5'' \<longleftrightarrow> suffix ''.h5'' x"
  using fnmatch_star_literal [of "''.h5''" x] by simp

lemma valid_name_facts:
  assumes "valid_name x"
  shows "x \<noteq> []" "hd x \<noteq> CHR ''/''" "last x \<noteq> CHR ''/''" "CHR ''/'' \<notin> set x"
    "x \<noteq> ''.''" "x \<noteq> ''..''"
proof -
  from assms show ne: "x \<noteq> []" and ns: "CHR ''/'' \<notin> set x" and "x \<noteq> ''.''" and "x \<noteq> ''..''"
    by (simp_all add: valid_name_def)
  from ne have "hd x \<in> set x" and "last x \<in> set x" by simp_all
  with ns show "hd x \<noteq> CHR ''/''" and "last x \<noteq> CHR ''/''" by auto
qed

lemma wf_node_child:
  assumes "wf_node (Dir es)" and "(x, c) \<in> set es"
  shows "valid_name x" "wf_node c" "map_of es x = Some c"
  using assms by (auto simp: list_all_iff)

text \<open>Joining a relative path to a directory path.\<close>

lemma os_path_join_slash:
  "P \<noteq> [] \<Longrightarrow> last P = CHR ''/'' \<Longrightarrow> r = [] \<or> hd r \<noteq> CHR ''/'' \<Longrightarrow> os_path_join P r = P @ r"
  by (auto simp: os_path_join_def)

lemma os_path_join_name:
  "a \<noteq> [] \<Longrightarrow> last a \<noteq> CHR ''/'' \<Longrightarrow> r = [] \<or> hd r \<noteq> CHR ''/'' \<Longrightarrow>
   os_path_join a r = a @ ''/'' @ r"
  by (auto simp: os_path_join_def)

lemma rlistdir_relative:
  "wf_node n \<Longrightarrow> r \<in> set (rlistdir n d) \<Longrightarrow> r \<noteq> [] \<and> hd r \<noteq> CHR ''/''"
proof (induction n d arbitrary: r rule: rlistdir.induct)
  case (1 dironly)
  then show ?case by simp
next
  case (2 es dironly)
  from "2.prems"(2) obtain x c where xc: "(x, c) \<in> set es"
    and ok: "(\<not> dironly \<or> is_dir c) \<and> \<not> ishidden x"
    and r: "r = x \<or> r \<in> os_path_join x ` set (rlistdir c dironly)"
    by (auto split: if_splits)
  from wf_node_child [OF "2.prems"(1) xc] have v: "valid_name x" and w: "wf_node c" by auto
  from r show ?case
  proof
    assume "r = x"
    with v show ?thesis by (simp add: valid_name_facts)
  next
    assume "r \<in> os_path_join x ` set (rlistdir c dironly)"
    then obtain r' where r': "r' \<in> set (rlistdir c dironly)" and e: "r = os_path_join x r'" by auto
    from "2.IH" [OF xc refl ok w r'] have "r' \<noteq> [] \<and> hd r' \<noteq> CHR ''/''" .
    with e v show ?thesis
      by (simp add: os_path_join_name valid_name_facts)
  qed
qed

lemma h5_entries_relative:
  "wf_node n \<Longrightarrow> r \<in> set (h5_entries n) \<Longrightarrow> r \<noteq> [] \<and> hd r \<noteq> CHR ''/''"
proof (induction n arbitrary: r rule: h5_entries.induct)
  case 1
  then show ?case by simp
next
  case (2 es)
  from "2.prems"(2) consider
    (name) c where "(r, c) \<in> set es"
  | (sub) x c r' where "(x, c) \<in> set es" "\<not> ishidden x \<and> is_dir c"
      "r' \<in> set (h5_entries c)" "r = os_path_join x r'"
    by (auto split: if_splits)
  then show ?case
  proof cases
    case name
    from wf_node_child(1) [OF "2.prems"(1) name] show ?thesis by (simp add: valid_name_facts)
  next
    case sub
    from wf_node_child [OF "2.prems"(1) sub(1)] have v: "valid_name x" and w: "wf_node c" by auto
    from "2.IH" [OF sub(1) refl sub(2) w sub(3)] have "r' \<noteq> [] \<and> hd r' \<noteq> CHR ''/''" .
    with sub(4) v show ?thesis by (simp add: os_path_join_name valid_name_facts)
  qed
qed

text \<open>One step down the tree, in terms of path resolution.\<close>

lemma resolve_child:
  assumes R: "\<forall>r. resolve fs (P @ r) = walk (Dir es # anc) (split_path r)"
    and wf: "wf_node (Dir es)" and xc: "(x, c) \<in> set es"
  shows "resolve fs (P @ x) = Some (c # Dir es # anc)"
    and "\<forall>r. resolve fs ((P @ x @ ''/'') @ r) = walk (c # Dir es # anc) (split_path r)"
proof -
  from wf_node_child [OF wf xc] have v: "valid_name x" and m: "map_of es x = Some c" by auto
  have w1: "walk (Dir es # anc) (x # cs) = walk (c # Dir es # anc) cs" for cs
    using v m by (simp add: valid_name_facts)
  from R have "resolve fs (P @ x) = walk (Dir es # anc) (split_path x)" by blast
  then show "resolve fs (P @ x) = Some (c # Dir es # anc)"
    using v w1 [of "[]"] by (simp add: split_path_no_slash valid_name_facts)
  show "\<forall>r. resolve fs ((P @ x @ ''/'') @ r) = walk (c # Dir es # anc) (split_path r)"
  proof
    fix r
    from R have "resolve fs (P @ (x @ CHR ''/'' # r)) = walk (Dir es # anc) (split_path (x @ CHR ''/'' # r))"
      by blast
    then show "resolve fs ((P @ x @ ''/'') @ r) = walk (c # Dir es # anc) (split_path r)"
      using v w1 by (simp add: split_path_append_slash split_path_no_slash valid_name_facts)
  qed
qed

lemma glob1_h5:
  assumes "resolve fs dp = Some (Dir es # anc)" and "dp \<noteq> []"
  shows "glob1 fs dp ''*.h5'' False = filter (\<lambda>x. \<not> ishidden x \<and> suffix ''.h5'' x) (map fst es)"
proof -
  have "iterdir fs dp False = map fst es"
    using assms by (simp add: iterdir_def scandir_def)
  then show ?thesis
    by (simp add: glob1_def Let_def ishidden_def fnmatch_h5 del: fnmatch.simps)
qed

lemma concat_map_map_concat:
  "concat (map F (map g (concat (map h es)))) = concat (map (\<lambda>e. concat (map F (map g (h e)))) es)"
  by (induction es) auto

text \<open>
  The search below a directory path \<open>P\<close> that ends in a slash: the names matched in the
  directory itself and in every directory \<^verbatim>\<open>_rlistdir\<close> lists below it.
\<close>

lemma glob_below:
  assumes "wf_node n" and "is_dir n"
    and "\<forall>r. resolve fs (P @ r) = walk (n # anc) (split_path r)"
    and "P \<noteq> []" and "last P = CHR ''/''"
  shows "concat (map (\<lambda>d. map (os_path_join d) (glob1 fs d ''*.h5'' False))
                  (P # map ((@) P) (rlistdir n True)))
         = map ((@) P) (h5_entries n)"
  using assms
proof (induction n arbitrary: P anc rule: h5_entries.induct)
  case 1
  then show ?case by simp
next
  case (2 es)
  let ?F = "\<lambda>d. map (os_path_join d) (glob1 fs d ''*.h5'' False)"
  let ?names = "filter (\<lambda>x. \<not> ishidden x \<and> suffix ''.h5'' x) (map fst es)"
  note wf = "2.prems"(1) and R = "2.prems"(3) and P = "2.prems"(4,5)
  have rel: "y \<in> set (map fst es) \<Longrightarrow> y = [] \<or> hd y \<noteq> CHR ''/''" for y
    using wf_node_child(1) [OF wf] by (auto simp: valid_name_facts)
  from R have "resolve fs (P @ []) = walk (Dir es # anc) (split_path [])" by blast
  then have rp: "resolve fs P = Some (Dir es # anc)" by simp
  have top: "?F P = map ((@) P) ?names"
    unfolding glob1_h5 [OF rp P(1)]
    by (rule map_cong [OF refl]) (use rel P in \<open>auto simp: os_path_join_slash\<close>)
  have child: "concat (map ?F (map ((@) P)
                  (if (\<not> True \<or> is_dir c) \<and> \<not> ishidden x
                   then x # map (os_path_join x) (rlistdir c True) else [])))
               = map ((@) P)
                  (if \<not> ishidden x \<and> is_dir c then map (os_path_join x) (h5_entries c) else [])"
    if xc: "(x, c) \<in> set es" for x c
  proof (cases "\<not> ishidden x \<and> is_dir c")
    case False
    then show ?thesis by auto
  next
    case True
    from wf_node_child [OF wf xc] have v: "valid_name x" and wc: "wf_node c" by auto
    let ?P' = "P @ x @ ''/''"
    from resolve_child [OF R wf xc]
    have rx: "resolve fs (P @ x) = Some (c # Dir es # anc)"
      and R': "\<forall>r. resolve fs (?P' @ r) = walk (c # Dir es # anc) (split_path r)" by auto
    from True obtain es' where c: "c = Dir es'" by (cases c) auto
    have P': "?P' \<noteq> []" "last ?P' = CHR ''/''" by simp_all
    from True have dc: "is_dir c" by simp
    have IH: "concat (map ?F (?P' # map ((@) ?P') (rlistdir c True))) = map ((@) ?P') (h5_entries c)"
      by (rule "2.IH" [OF xc refl True wc dc R' P'])
    from R' have "resolve fs (?P' @ []) = walk (c # Dir es # anc) (split_path [])" by blast
    with c have rp': "resolve fs ?P' = Some (Dir es' # Dir es # anc)" by simp
    have relc: "y \<in> set (map fst es') \<Longrightarrow> y = [] \<or> hd y \<noteq> CHR ''/''" for y
      using wf_node_child(1) [of es'] wc c by (auto simp: valid_name_facts)
    have lx: "P @ x \<noteq> []" "last (P @ x) \<noteq> CHR ''/''"
      using v by (simp_all add: valid_name_facts)
    have a: "?F (P @ x) = ?F ?P'"
    proof -
      have "?F (P @ x) = map ((@) ?P') (filter (\<lambda>x. \<not> ishidden x \<and> suffix ''.h5'' x) (map fst es'))"
        unfolding glob1_h5 [OF rx [unfolded c] lx(1)]
        by (rule map_cong [OF refl]) (use relc lx in \<open>auto simp: os_path_join_name\<close>)
      moreover
      have "?F ?P' = map ((@) ?P') (filter (\<lambda>x. \<not> ishidden x \<and> suffix ''.h5'' x) (map fst es'))"
        unfolding glob1_h5 [OF rp' P'(1)]
        by (rule map_cong [OF refl]) (use relc in \<open>auto simp: os_path_join_slash\<close>)
      ultimately show ?thesis by simp
    qed
    have b: "map ((@) P) (map (os_path_join x) rs) = map ((@) ?P') rs"
      if "\<forall>r \<in> set rs. r \<noteq> [] \<and> hd r \<noteq> CHR ''/''" for rs
      using that v by (auto simp: os_path_join_name valid_name_facts)
    have b1: "map ((@) P) (map (os_path_join x) (rlistdir c True)) = map ((@) ?P') (rlistdir c True)"
      by (rule b) (use rlistdir_relative [OF wc] in blast)
    have b2: "map ((@) P) (map (os_path_join x) (h5_entries c)) = map ((@) ?P') (h5_entries c)"
      by (rule b) (use h5_entries_relative [OF wc] in blast)
    have "concat (map ?F (map ((@) P) (x # map (os_path_join x) (rlistdir c True))))
          = ?F (P @ x) @ concat (map ?F (map ((@) P) (map (os_path_join x) (rlistdir c True))))"
      by simp
    also have "\<dots> = ?F ?P' @ concat (map ?F (map ((@) ?P') (rlistdir c True)))"
      unfolding a b1 ..
    also have "\<dots> = concat (map ?F (?P' # map ((@) ?P') (rlistdir c True)))"
      by (simp only: list.map concat.simps)
    also have "\<dots> = map ((@) ?P') (h5_entries c)" by (rule IH)
    also have "\<dots> = map ((@) P) (map (os_path_join x) (h5_entries c))" unfolding b2 ..
    finally show ?thesis using True by simp
  qed
  have sub: "concat (map ?F (map ((@) P) (rlistdir (Dir es) True)))
             = map ((@) P) (concat (map (\<lambda>(x, n).
                  if \<not> ishidden x \<and> is_dir n then map (os_path_join x) (h5_entries n) else []) es))"
  proof -
    have "concat (map ?F (map ((@) P) (rlistdir (Dir es) True)))
          = concat (map (\<lambda>(x, c). concat (map ?F (map ((@) P)
                  (if (\<not> True \<or> is_dir c) \<and> \<not> ishidden x
                   then x # map (os_path_join x) (rlistdir c True) else [])))) es)"
      by (simp only: rlistdir.simps concat_map_map_concat split_def)
    also have "\<dots> = concat (map (\<lambda>(x, c). map ((@) P)
                  (if \<not> ishidden x \<and> is_dir c then map (os_path_join x) (h5_entries c) else [])) es)"
      by (rule arg_cong [where f = concat], rule map_cong [OF refl]) (use child in auto)
    also have "\<dots> = map ((@) P) (concat (map (\<lambda>(x, n).
                  if \<not> ishidden x \<and> is_dir n then map (os_path_join x) (h5_entries n) else []) es))"
      by (simp add: map_concat comp_def split_def)
    finally show ?thesis .
  qed
  have "concat (map ?F (P # map ((@) P) (rlistdir (Dir es) True)))
        = ?F P @ concat (map ?F (map ((@) P) (rlistdir (Dir es) True)))"
    by simp
  also have "\<dots> = map ((@) P) (h5_entries (Dir es))"
    unfolding top sub by simp
  finally show ?case .
qed

lemma os_path_split_pattern: "os_path_split (d @ ''/**/*.h5'') = (d @ ''/**'', ''*.h5'')"
  by (simp add: os_path_split_def rstrip_slash_def Let_def)

lemma os_path_split_starstar:
  assumes "d = [] \<or> last d \<noteq> CHR ''/''"
  shows "os_path_split (d @ ''/**'') = (if d = [] then ''/'' else d, ''**'')"
proof (cases "d = []")
  case True
  then show ?thesis by (simp add: os_path_split_def rstrip_slash_def Let_def)
next
  case False
  then obtain d' c where d: "d = d' @ [c]" by (cases d rule: rev_cases) auto
  with assms have c: "c \<noteq> CHR ''/''" by simp
  show ?thesis
    unfolding d using c by (simp add: os_path_split_def rstrip_slash_def Let_def)
qed

lemma has_magic_append: "has_magic (a @ b) \<longleftrightarrow> has_magic a \<or> has_magic b"
  by (auto simp: has_magic_def)

text \<open>The directory part of the pattern: the save directory and all below it.\<close>

lemma iglob_directories:
  assumes nm: "\<not> has_magic d" and ld: "d = [] \<or> last d \<noteq> CHR ''/''"
    and res: "resolve fs (d @ ''/'') = Some (n # anc)" and wf: "wf_node n"
  shows "iglob fs (d @ ''/**'') True = (d @ ''/'') # map ((@) (d @ ''/'')) (rlistdir n True)"
proof -
  let ?head = "if d = [] then ''/'' else d"
  from resolve_slash [OF res] have rd: "d \<noteq> [] \<longrightarrow> resolve fs d = Some (n # anc)" by blast
  have rh: "resolve fs ?head = Some (n # anc)" using rd res by auto
  have hne: "?head \<noteq> []" by simp
  have hm: "\<not> has_magic ?head" using nm by (simp add: has_magic_def)
  have j0: "os_path_join ?head [] = d @ ''/''"
    using ld by (auto simp: os_path_join_def)
  have j: "map (os_path_join ?head) (rlistdir n True) = map ((@) (d @ ''/'')) (rlistdir n True)"
    by (rule map_cong [OF refl])
       (use rlistdir_relative [OF wf] ld in \<open>auto simp: os_path_join_def\<close>)
  have g2: "glob2 fs ?head ''**'' True = [] # rlistdir n True"
    using rh hne by (simp add: glob2_def)
  have "iglob fs (d @ ''/**'') True = map (os_path_join ?head) (glob2 fs ?head ''**'' True)"
    apply (subst iglob.simps)
    apply (simp only: os_path_split_starstar [OF ld] Let_def fst_conv snd_conv)
    using hm hne apply (simp add: has_magic_append has_magic_def isrecursive_def)
    done
  also have "\<dots> = (d @ ''/'') # map ((@) (d @ ''/'')) (rlistdir n True)"
    unfolding g2 using j0 j by simp
  finally show ?thesis .
qed

lemma py_glob_weights_pattern:
  assumes "\<not> has_magic sp" and "sp = d @ ''/''" and "d = [] \<or> last d \<noteq> CHR ''/''"
    and "resolve fs sp = Some (n # anc)" and "wf_node n"
  shows "py_glob fs (weights_pattern sp) = Some (map ((@) sp) (h5_entries n))"
proof -
  from assms(1,2) have nm: "\<not> has_magic d" by (simp add: has_magic_append)
  from assms(2,4) have res: "resolve fs (d @ ''/'') = Some (n # anc)" by simp
  from resolve_slash [OF res] have dir: "is_dir n"
    and R: "\<forall>r. resolve fs ((d @ ''/'') @ r) = walk (n # anc) (split_path r)" by auto
  have pat: "weights_pattern sp = d @ ''/**/*.h5''"
    using assms(2) by (simp add: weights_pattern_def)
  have nb: "CHR ''['' \<notin> set (d @ ''/**/*.h5'')"
    using nm by (auto simp: has_magic_def)
  have nr: "\<not> isrecursive (d @ ''/**/*.h5'')"
    by (auto simp: isrecursive_def append_eq_Cons_conv)
  have dirs: "iglob fs (d @ ''/**'') True = (d @ ''/'') # map ((@) (d @ ''/'')) (rlistdir n True)"
    by (rule iglob_directories [OF nm assms(3) res assms(5)])
  have "iglob fs (d @ ''/**/*.h5'') False =
          concat (map (\<lambda>d'. map (os_path_join d') (glob1 fs d' ''*.h5'' False))
                    (iglob fs (d @ ''/**'') True))"
    apply (subst iglob.simps)
    apply (simp only: os_path_split_pattern Let_def fst_conv snd_conv)
    apply (simp add: has_magic_append has_magic_def isrecursive_def)
    done
  also have "\<dots> = map ((@) (d @ ''/'')) (h5_entries n)"
    unfolding dirs by (rule glob_below [OF assms(5) dir R]) simp_all
  finally have "iglob fs (d @ ''/**/*.h5'') False = map ((@) sp) (h5_entries n)"
    using assms(2) by simp
  then show ?thesis
    unfolding pat py_glob_def using nb nr by simp
qed

text \<open>The entries found, by the directories that lead to them.\<close>

lemma rel_path_Cons: "rel_path (d # ds) x = d @ ''/'' @ rel_path ds x"
  by (simp add: rel_path_def)

lemma h5_entries_subI:
  "(x, c) \<in> set es \<Longrightarrow> \<not> ishidden x \<and> is_dir c \<Longrightarrow> r' \<in> set (h5_entries c) \<Longrightarrow>
   os_path_join x r' \<in> set (h5_entries (Dir es))"
  by force

lemma h5_entries_iff:
  assumes "wf_node n"
  shows "r \<in> set (h5_entries n) \<longleftrightarrow>
           (\<exists>ds x es. r = rel_path ds x \<and> descend n ds = Some (Dir es) \<and>
              list_all (\<lambda>d. \<not> ishidden d) ds \<and>
              x \<in> fst ` set es \<and> \<not> ishidden x \<and> suffix ''.h5'' x)"
  using assms
proof (induction n arbitrary: r rule: h5_entries.induct)
  case 1
  have "descend File ds \<noteq> Some (Dir es)" for ds es by (cases ds) auto
  then show ?case by simp
next
  case (2 es)
  note wf = "2.prems"
  show ?case
  proof
    assume "r \<in> set (h5_entries (Dir es))"
    then consider
      (name) "r \<in> fst ` set es" "\<not> ishidden r" "suffix ''.h5'' r"
    | (sub) x c r' where "(x, c) \<in> set es" "\<not> ishidden x \<and> is_dir c"
        "r' \<in> set (h5_entries c)" "r = os_path_join x r'"
      by (auto split: if_splits)
    then show "\<exists>ds x es'. r = rel_path ds x \<and> descend (Dir es) ds = Some (Dir es') \<and>
              list_all (\<lambda>d. \<not> ishidden d) ds \<and>
              x \<in> fst ` set es' \<and> \<not> ishidden x \<and> suffix ''.h5'' x"
    proof cases
      case name
      then have "r = rel_path [] r \<and> descend (Dir es) [] = Some (Dir es) \<and>
              list_all (\<lambda>d. \<not> ishidden d) [] \<and>
              r \<in> fst ` set es \<and> \<not> ishidden r \<and> suffix ''.h5'' r"
        by (simp add: rel_path_def)
      then show ?thesis by blast
    next
      case sub
      from wf_node_child [OF wf sub(1)] have v: "valid_name x" and wc: "wf_node c"
        and m: "map_of es x = Some c" by auto
      from "2.IH" [OF sub(1) refl sub(2) wc] sub(3) obtain ds y es' where
        r': "r' = rel_path ds y" and d: "descend c ds = Some (Dir es')"
        and h: "list_all (\<lambda>d. \<not> ishidden d) ds"
        and y: "y \<in> fst ` set es'" "\<not> ishidden y" "suffix ''.h5'' y"
        by blast
      from h5_entries_relative [OF wc sub(3)] have "r' \<noteq> [] \<and> hd r' \<noteq> CHR ''/''" .
      with sub(4) v have "r = x @ ''/'' @ r'" by (simp add: os_path_join_name valid_name_facts)
      with r' have 1: "r = rel_path (x # ds) y" by (simp add: rel_path_Cons)
      from m d have 2: "descend (Dir es) (x # ds) = Some (Dir es')" by simp
      from h sub(2) have 3: "list_all (\<lambda>d. \<not> ishidden d) (x # ds)" by simp
      from 1 2 3 y show ?thesis by blast
    qed
  next
    assume "\<exists>ds x es'. r = rel_path ds x \<and> descend (Dir es) ds = Some (Dir es') \<and>
              list_all (\<lambda>d. \<not> ishidden d) ds \<and>
              x \<in> fst ` set es' \<and> \<not> ishidden x \<and> suffix ''.h5'' x"
    then obtain ds y es' where r: "r = rel_path ds y"
      and d: "descend (Dir es) ds = Some (Dir es')"
      and h: "list_all (\<lambda>d. \<not> ishidden d) ds"
      and y: "y \<in> fst ` set es'" "\<not> ishidden y" "suffix ''.h5'' y"
      by blast
    show "r \<in> set (h5_entries (Dir es))"
    proof (cases ds)
      case Nil
      with r d y show ?thesis by (auto simp: rel_path_def)
    next
      case (Cons x ds')
      with d obtain c where m: "map_of es x = Some c" and dc: "descend c ds' = Some (Dir es')"
        by (auto split: option.splits)
      from m have xc: "(x, c) \<in> set es" by (rule map_of_SomeD)
      from wf_node_child [OF wf xc] have v: "valid_name x" and wc: "wf_node c" by auto
      from dc have ic: "is_dir c" by (cases c; cases ds') auto
      from h Cons have hx: "\<not> ishidden x" and hs: "list_all (\<lambda>d. \<not> ishidden d) ds'" by auto
      from hx ic have ok: "\<not> ishidden x \<and> is_dir c" by simp
      have mem: "rel_path ds' y \<in> set (h5_entries c)"
        using "2.IH" [OF xc refl ok wc, of "rel_path ds' y"] dc hs y by blast
      from h5_entries_relative [OF wc mem] v
      have j: "os_path_join x (rel_path ds' y) = x @ ''/'' @ rel_path ds' y"
        by (simp add: os_path_join_name valid_name_facts)
      from r Cons have "r = x @ ''/'' @ rel_path ds' y" by (simp add: rel_path_Cons)
      with j have "r = os_path_join x (rel_path ds' y)" by simp
      then show ?thesis using h5_entries_subI [OF xc ok mem] by simp
    qed
  qed
qed

lemma plain_h5_entries: "plain n \<Longrightarrow> h5_entries n = h5_files n"
proof (induction n rule: h5_entries.induct)
  case 1
  then show ?case by simp
next
  case (2 es)
  from "2.prems" have pl: "\<And>x c. (x, c) \<in> set es \<Longrightarrow>
      \<not> ishidden x \<and> \<not> (is_dir c \<and> suffix ''.h5'' x) \<and> plain c"
    by (auto simp: list_all_iff)
  have names: "filter (\<lambda>x. \<not> ishidden x \<and> suffix ''.h5'' x) (map fst es)
               = map fst (filter (\<lambda>(x, n). \<not> is_dir n \<and> suffix ''.h5'' x) es)"
    unfolding filter_map comp_def
    by (rule arg_cong [where f = "map fst"], rule filter_cong [OF refl]) (use pl in auto)
  have sub: "map (\<lambda>(x, n). if \<not> ishidden x \<and> is_dir n then map (os_path_join x) (h5_entries n) else []) es
             = map (\<lambda>(x, n). map (os_path_join x) (h5_files n)) es"
  proof (rule map_cong [OF refl])
    fix e assume e: "e \<in> set es"
    obtain x c where xc: "e = (x, c)" by (cases e)
    from e xc have m: "(x, c) \<in> set es" by simp
    have "(if \<not> ishidden x \<and> is_dir c then map (os_path_join x) (h5_entries c) else [])
          = map (os_path_join x) (h5_files c)"
    proof (cases c)
      case File
      then show ?thesis by simp
    next
      case (Dir es')
      with pl [OF m] have ok: "\<not> ishidden x \<and> is_dir c" and p: "plain c" by auto
      from "2.IH" [OF m refl ok p] ok show ?thesis by simp
    qed
    then show "(case e of (x, n) \<Rightarrow> if \<not> ishidden x \<and> is_dir n then map (os_path_join x) (h5_entries n) else [])
          = (case e of (x, n) \<Rightarrow> map (os_path_join x) (h5_files n))"
      unfolding xc by simp
  qed
  show ?case by (simp only: h5_entries.simps h5_files.simps names sub)
qed

lemma fs_m_facts:
  "\<not> has_magic ''/m/''"
  "resolve fs_m ''/m/'' = Some [node_m, root fs_m]"
  "resolve fs_m ''/m'' = Some [node_m, root fs_m]"
  "wf_node node_m"
  "h5_entries node_m = [''z.h5'', ''sub/a.h5'']"
  "h5_files node_m = [''z.h5'', ''sub/a.h5'', ''.cache/c.h5'']"
  by code_simp+

lemma py_glob_fs_m_no_slash:
  "py_glob fs_m (weights_pattern ''/m'') = Some [''/m/z.h5'', ''/m2/x.h5'']"
  by code_simp

text \<open>
  Claim C1, as amended. For a save path that ends in one slash, has no glob
  metacharacter and names a directory of a well-formed tree, the candidates of
  \<^verbatim>\<open>load_model\<close> (the result of \<^verbatim>\<open>glob\<close> on the pattern of line 76) are exactly, and in
  this order, the save path followed by each relative path of \<open>h5_entries\<close>: the entries
  named \<^verbatim>\<open>*.h5\<close> that do not start with a dot, in the save directory and in every
  directory reached from it through names that do not start with a dot (the second
  part of the statement says so without the recursion). So every candidate lies under
  the save path. When no name below the save path starts with a
  dot and no directory there is named \<^verbatim>\<open>*.h5\<close>, these are exactly the \<^verbatim>\<open>.h5\<close> files in
  the save directory or any of its subdirectories.
\<close>

theorem weights_candidates:
  assumes "\<not> has_magic sp" and "sp = d @ ''/''" and "d = [] \<or> last d \<noteq> CHR ''/''"
    and "resolve fs sp = Some (n # anc)" and "wf_node n"
  shows "py_glob fs (weights_pattern sp) = Some (map ((@) sp) (h5_entries n)) \<and>
         (\<forall>r. r \<in> set (h5_entries n) \<longleftrightarrow>
            (\<exists>ds x es. r = rel_path ds x \<and> descend n ds = Some (Dir es) \<and>
               list_all (\<lambda>d. \<not> ishidden d) ds \<and>
               x \<in> fst ` set es \<and> \<not> ishidden x \<and> suffix ''.h5'' x)) \<and>
         (plain n \<longrightarrow> set (h5_entries n) = set (h5_files n))"
proof (intro conjI allI impI)
  show "py_glob fs (weights_pattern sp) = Some (map ((@) sp) (h5_entries n))"
    by (rule py_glob_weights_pattern [OF assms])
  show "r \<in> set (h5_entries n) \<longleftrightarrow>
            (\<exists>ds x es. r = rel_path ds x \<and> descend n ds = Some (Dir es) \<and>
               list_all (\<lambda>d. \<not> ishidden d) ds \<and>
               x \<in> fst ` set es \<and> \<not> ishidden x \<and> suffix ''.h5'' x)" for r
    by (rule h5_entries_iff [OF assms(5)])
  show "set (h5_entries n) = set (h5_files n)" if "plain n"
    using plain_h5_entries [OF that] by simp
qed

lemma fs_m_sub_facts:
  "\<not> has_magic ''/m/sub/''"
  "resolve fs_m ''/m/sub/'' = Some [node_sub, node_m, root fs_m]"
  "wf_node node_sub"
  "plain node_sub"
  "h5_entries node_sub = [''a.h5'']"
  "h5_files node_sub = [''a.h5'']"
  by code_simp+

theorem weights_candidates_witness:
  "resolve fs_m ''/m/'' = Some [node_m, root fs_m] \<and>
   py_glob fs_m (weights_pattern ''/m/'') = Some [''/m/z.h5'', ''/m/sub/a.h5''] \<and>
   resolve fs_m ''/m/sub/'' = Some [node_sub, node_m, root fs_m] \<and>
   plain node_sub \<and>
   py_glob fs_m (weights_pattern ''/m/sub/'') = Some [''/m/sub/a.h5''] \<and>
   set (h5_entries node_sub) = set (h5_files node_sub)"
proof -
  have 1: "''/m/'' = ''/m'' @ ''/''" "''/m'' = [] \<or> last ''/m'' \<noteq> CHR ''/''" by simp_all
  have 2: "''/m/sub/'' = ''/m/sub'' @ ''/''" "''/m/sub'' = [] \<or> last ''/m/sub'' \<noteq> CHR ''/''"
    by simp_all
  note a = weights_candidates [OF fs_m_facts(1) 1 fs_m_facts(2) fs_m_facts(4)]
  note b = weights_candidates [OF fs_m_sub_facts(1) 2 fs_m_sub_facts(2) fs_m_sub_facts(3)]
  from a [THEN conjunct1] b [THEN conjunct1] b [THEN conjunct2, THEN conjunct2]
  show ?thesis
    by (simp add: fs_m_facts fs_m_sub_facts)
qed

text \<open>
  The claim as it was stated fails on \<open>fs_m\<close>. For the save path \<^verbatim>\<open>/m/\<close> the file
  \<^verbatim>\<open>/m/.cache/c.h5\<close> is a \<^verbatim>\<open>.h5\<close> file in a subdirectory and is no candidate. For the save
  path \<^verbatim>\<open>/m\<close>, written without the slash, the pattern is \<^verbatim>\<open>/m**/*.h5\<close>: the file
  \<^verbatim>\<open>/m/sub/a.h5\<close> is no candidate, and \<^verbatim>\<open>/m2/x.h5\<close>, outside the save directory, is one.
\<close>

theorem candidates_not_all_h5_files_counterexample:
  "resolve fs_m ''/m/'' = Some [node_m, root fs_m] \<and>
   h5_files node_m = [''z.h5'', ''sub/a.h5'', ''.cache/c.h5''] \<and>
   py_glob fs_m (weights_pattern ''/m/'') = Some [''/m/z.h5'', ''/m/sub/a.h5''] \<and>
   os_path_join ''/m/'' ''.cache/c.h5'' \<notin> set [''/m/z.h5'', ''/m/sub/a.h5''] \<and>
   resolve fs_m ''/m'' = Some [node_m, root fs_m] \<and>
   py_glob fs_m (weights_pattern ''/m'') = Some [''/m/z.h5'', ''/m2/x.h5''] \<and>
   os_path_join ''/m'' ''sub/a.h5'' \<notin> set [''/m/z.h5'', ''/m2/x.h5''] \<and>
   ''/m2/x.h5'' \<notin> os_path_join ''/m'' ` set (h5_files node_m)"
  by (simp add: fs_m_facts py_glob_fs_m py_glob_fs_m_no_slash os_path_join_def)

end
